theory Spec2Isabelle
  imports Complex_Main
begin

section \<open>Data model\<close>

text \<open>
  The fillet core of \<^verbatim>\<open>src/core/fillet.ts\<close> (module \<^verbatim>\<open>MakerJs.path\<close>).
  Numbers are modelled as reals. A point (\<^verbatim>\<open>IPoint\<close>, a two-element array) is a pair.
  A path (\<^verbatim>\<open>IPath\<close>) is a tagged object; the tag decides the fields:
  a line has \<^verbatim>\<open>origin\<close> and \<^verbatim>\<open>end\<close>, a circle has \<^verbatim>\<open>origin\<close> and
  \<^verbatim>\<open>radius\<close>, an arc has \<^verbatim>\<open>origin\<close>, \<^verbatim>\<open>radius\<close>, \<^verbatim>\<open>startAngle\<close> and
  \<^verbatim>\<open>endAngle\<close> (in this order below).
\<close>

type_synonym IPoint = "real \<times> real"

datatype IPath =
    Line IPoint IPoint
  | Circle IPoint real
  | Arc IPoint real real real

text \<open>
  The core reads and writes a field of a path through its name
  (\<^verbatim>\<open>context.path[context.propertyName]\<close>). A field holds a number or a point; a name
  that is not a field reads as \<^verbatim>\<open>undefined\<close>, which is \<open>None\<close>.
  In this typed model a write that does not fit the variant (a name that is not one of its
  fields, or a value of the other kind) leaves the path as it is; the lemmas
  \<open>getMatchingPointProperties_names\<close> and \<open>filletResultOf_Some\<close> below show that
  the core only ever writes an endpoint field of the path at hand, with a value of the
  kind that this field holds.
\<close>

datatype pvalue = VNumber real | VPoint IPoint

fun getProperty :: "IPath \<Rightarrow> string \<Rightarrow> pvalue option" where
  "getProperty (Line og e) n =
     (if n = ''origin'' then Some (VPoint og)
      else if n = ''end'' then Some (VPoint e) else None)"
| "getProperty (Circle og r) n =
     (if n = ''origin'' then Some (VPoint og)
      else if n = ''radius'' then Some (VNumber r) else None)"
| "getProperty (Arc og r sa ea) n =
     (if n = ''origin'' then Some (VPoint og)
      else if n = ''radius'' then Some (VNumber r)
      else if n = ''startAngle'' then Some (VNumber sa)
      else if n = ''endAngle'' then Some (VNumber ea) else None)"

fun setProperty :: "IPath \<Rightarrow> string \<Rightarrow> pvalue option \<Rightarrow> IPath" where
  "setProperty (Line og e) n (Some (VPoint p)) =
     (if n = ''origin'' then Line p e
      else if n = ''end'' then Line og p else Line og e)"
| "setProperty (Circle og r) n (Some (VPoint p)) =
     (if n = ''origin'' then Circle p r else Circle og r)"
| "setProperty (Circle og r) n (Some (VNumber x)) =
     (if n = ''radius'' then Circle og x else Circle og r)"
| "setProperty (Arc og r sa ea) n (Some (VPoint p)) =
     (if n = ''origin'' then Arc p r sa ea else Arc og r sa ea)"
| "setProperty (Arc og r sa ea) n (Some (VNumber x)) =
     (if n = ''radius'' then Arc og x sa ea
      else if n = ''startAngle'' then Arc og r x ea
      else if n = ''endAngle'' then Arc og r sa x else Arc og r sa ea)"
| "setProperty pth n v = pth"

text \<open>
  The two input paths are objects that the core mutates in place, and nothing stops a
  caller from passing the same object twice. So paths live in a store, addressed by
  references, and \<^verbatim>\<open>fillet\<close> takes two references (\<open>None\<close> for \<^verbatim>\<open>null\<close>).
  The store also keeps the list of the field writes done so far (reference and field
  name, oldest first): no code reads it, it only records which fields were ever assigned.
\<close>

type_synonym ref = nat

record store =
  heap :: "ref \<Rightarrow> IPath"
  writes :: "(ref \<times> string) list"

definition writeProperty :: "ref \<Rightarrow> string \<Rightarrow> pvalue option \<Rightarrow> store \<Rightarrow> store" where
  "writeProperty a n v st =
     st\<lparr>heap := (heap st)(a := setProperty (heap st a) n v),
        writes := writes st @ [(a, n)]\<rparr>"

text \<open>A property access on \<^verbatim>\<open>null\<close> throws; this is the only exception of the core itself.\<close>

datatype error = TypeError

text \<open>
  The result of the library's \<^verbatim>\<open>intersection\<close>, when it is not \<^verbatim>\<open>null\<close>: the
  array \<^verbatim>\<open>intersectionPoints\<close>. The library reports "no intersection" as \<^verbatim>\<open>null\<close>
  and never as an empty array, so the array is kept as its first point and the rest.
\<close>

datatype IPathIntersection = IPathIntersection IPoint "IPoint list"

fun intersectionPoints :: "IPathIntersection \<Rightarrow> IPoint list" where
  "intersectionPoints (IPathIntersection p ps) = p # ps"

record IPointProperty =
  point :: IPoint
  propertyName :: string

record IMatchPointProperty = IPointProperty +
  path :: ref
  isStart :: bool
  shardPoint :: "IPoint option"

text \<open>
  \<^verbatim>\<open>clipPath\<close> is a closure that assigns one field of the context's path; here it is a
  function on the store.
\<close>

record IFilletResult =
  filletAngle :: real
  clipPath :: "store \<Rightarrow> store"

section \<open>The geometry library the core calls\<close>

text \<open>
  \<^verbatim>\<open>fillet.ts\<close> calls functions of the rest of the library (\<^verbatim>\<open>point\<close>, \<^verbatim>\<open>angle\<close>,
  \<^verbatim>\<open>measure\<close>, \<^verbatim>\<open>paths\<close>, \<^verbatim>\<open>path\<close>, \<^verbatim>\<open>intersection\<close>), which are not part of
  this file. They are parameters of the model: a record of functions, one field per
  function called. Each is taken to return without throwing and to leave the input paths
  alone (the ones that mutate their argument, \<^verbatim>\<open>breakAtPoint\<close>, \<^verbatim>\<open>path.rotate\<close>
  and \<^verbatim>\<open>path.moveRelative\<close>, are only ever applied to fresh objects, and return the
  new value here). An argument that can be \<^verbatim>\<open>undefined\<close> or \<^verbatim>\<open>null\<close> at the call
  is an option. The constructors \<^verbatim>\<open>new paths.Line\<close>, \<^verbatim>\<open>new paths.Circle\<close> and
  \<^verbatim>\<open>new paths.Arc\<close> store their arguments in a new object of that type: they are the
  constructors of \<open>IPath\<close>.
\<close>

record library =
  point_fromArc :: "IPath \<Rightarrow> IPoint \<times> IPoint"
  point_areEqualRounded :: "IPoint \<Rightarrow> IPoint \<Rightarrow> bool"
  point_closest :: "IPoint \<Rightarrow> IPoint list \<Rightarrow> IPoint"
  breakAtPoint :: "IPath \<Rightarrow> IPoint option \<Rightarrow> IPath \<times> IPath option"
  measure_isArcConcaveTowardsPoint :: "IPath \<Rightarrow> IPoint option \<Rightarrow> bool"
  measure_pathLength :: "IPath \<Rightarrow> real"
  measure_arcAngle :: "IPath \<Rightarrow> real"
  paths_Parallel :: "IPath \<Rightarrow> real \<Rightarrow> IPoint option \<Rightarrow> IPath"
  angle_ofLineInDegrees :: "IPath \<Rightarrow> real"
  angle_toDegrees :: "real \<Rightarrow> real"
  angle_ofPointInRadians :: "IPoint \<Rightarrow> IPoint \<Rightarrow> real"
  path_rotate :: "IPath \<Rightarrow> real \<Rightarrow> IPoint \<Rightarrow> IPath"
  path_moveRelative :: "IPath \<Rightarrow> IPoint \<Rightarrow> IPath"
  slopeIntersectionPoint :: "IPath \<Rightarrow> IPath \<Rightarrow> IPoint option"
  intersection :: "IPath option \<Rightarrow> IPath option \<Rightarrow> IPathIntersection option"

section \<open>The functions of fillet.ts\<close>

subsection \<open>getPointProperties\<close>

definition getPointProperties :: "library \<Rightarrow> IPath \<Rightarrow> IPointProperty list option" where
  "getPointProperties L pathToInspect =
     (case pathToInspect of
        Arc og r sa ea \<Rightarrow>
          (let arcPoints = point_fromArc L pathToInspect
           in Some [\<lparr>point = fst arcPoints, propertyName = ''startAngle''\<rparr>,
                    \<lparr>point = snd arcPoints, propertyName = ''endAngle''\<rparr>])
      | Line og e \<Rightarrow>
          Some [\<lparr>point = og, propertyName = ''origin''\<rparr>,
                \<lparr>point = e, propertyName = ''end''\<rparr>]
      | Circle og r \<Rightarrow> None)"

subsection \<open>getMatchingPointProperties\<close>

definition makeMatch :: "ref \<Rightarrow> IPointProperty list \<Rightarrow> nat \<Rightarrow> IMatchPointProperty" where
  "makeMatch pathContext pointProperties index =
     \<lparr>point = point (pointProperties ! index),
      propertyName = propertyName (pointProperties ! index),
      path = pathContext,
      isStart = (index = 0),
      shardPoint = None\<rparr>"

text \<open>
  \<^verbatim>\<open>check\<close> returns a boolean and assigns \<^verbatim>\<open>result\<close> when it is true; here \<open>Some\<close> of
  the assigned value stands for true and \<open>None\<close> for false. Reading
  \<^verbatim>\<open>path1Properties[i1]\<close> when \<^verbatim>\<open>path1Properties\<close> is \<^verbatim>\<open>null\<close> throws, and
  the arguments are evaluated left to right.
\<close>

definition check ::
  "library \<Rightarrow> ref \<Rightarrow> ref \<Rightarrow> IPointProperty list option \<Rightarrow> IPointProperty list option \<Rightarrow>
   nat \<Rightarrow> nat \<Rightarrow> error + IMatchPointProperty list option" where
  "check L path1 path2 path1Properties path2Properties i1 i2 =
     (case path1Properties of
        None \<Rightarrow> Inl TypeError
      | Some props1 \<Rightarrow>
          (case path2Properties of
             None \<Rightarrow> Inl TypeError
           | Some props2 \<Rightarrow>
               if point_areEqualRounded L (point (props1 ! i1)) (point (props2 ! i2))
               then Inr (Some [makeMatch path1 props1 i1, makeMatch path2 props2 i2])
               else Inr None))"

text \<open>The short-circuit \<^verbatim>\<open>||\<close>: the right operand runs only when the left one is false.\<close>

definition orElse ::
  "error + 'a option \<Rightarrow> (error + 'a option) \<Rightarrow> error + 'a option" where
  "orElse x y = (case x of Inl e \<Rightarrow> Inl e | Inr (Some v) \<Rightarrow> Inr (Some v) | Inr None \<Rightarrow> y)"

definition getMatchingPointProperties ::
  "library \<Rightarrow> store \<Rightarrow> ref \<Rightarrow> ref \<Rightarrow> error + IMatchPointProperty list option" where
  "getMatchingPointProperties L st path1 path2 =
     (let path1Properties = getPointProperties L (heap st path1);
          path2Properties = getPointProperties L (heap st path2);
          chk = check L path1 path2 path1Properties path2Properties
      in orElse (chk 0 0) (orElse (chk 0 1) (orElse (chk 1 0) (chk 1 1))))"

subsection \<open>cloneAndBreakPath\<close>

text \<open>
  \<^verbatim>\<open>cloneObject\<close> gives an independent copy, which for a value is the value itself.
  \<^verbatim>\<open>breakAtPoint\<close> shortens the copy in place and returns the other piece, or \<^verbatim>\<open>null\<close>.
\<close>

definition cloneAndBreakPath :: "library \<Rightarrow> IPath \<Rightarrow> IPoint option \<Rightarrow> IPath option list" where
  "cloneAndBreakPath L pathToShard shardPt =
     (let shardStart = pathToShard;
          (shardStart', shardEnd) = breakAtPoint L shardStart shardPt
      in [Some shardStart', shardEnd])"

subsection \<open>getGuidePath\<close>

definition getGuidePath ::
  "library \<Rightarrow> store \<Rightarrow> IMatchPointProperty \<Rightarrow> real \<Rightarrow> IPoint option \<Rightarrow> IPath option" where
  "getGuidePath L st context filletRadius nearPoint =
     (case heap st (path context) of
        Arc og radius startAngle endAngle \<Rightarrow>
          (case cloneAndBreakPath L (Arc og radius startAngle endAngle) (shardPoint context)
                  ! (if isStart context then 0 else 1) of
             None \<Rightarrow> None
           | Some guideArcShard \<Rightarrow>
               (let guideRadius =
                      (if measure_isArcConcaveTowardsPoint L guideArcShard nearPoint
                       then radius - filletRadius
                       else radius + filletRadius)
                in Some (Arc og guideRadius startAngle endAngle)))
      | Line og e \<Rightarrow> Some (paths_Parallel L (Line og e) filletRadius nearPoint)
      | Circle og r \<Rightarrow> None)"

subsection \<open>getFilletResult\<close>

text \<open>
  The first part computes \<^verbatim>\<open>result\<close> (lines 149 to 191); it reads the path and writes
  nothing.
\<close>

definition filletResultOf ::
  "library \<Rightarrow> store \<Rightarrow> IMatchPointProperty \<Rightarrow> real \<Rightarrow> IPoint \<Rightarrow> IFilletResult option" where
  "filletResultOf L st context filletRadius filletCenter =
     (case heap st (path context) of
        Arc og radius startAngle endAngle \<Rightarrow>
          (let guideLine = Line og filletCenter;
               guideLineAngle = angle_ofLineInDegrees L guideLine;
               filletAngle =
                 (if \<not> measure_isArcConcaveTowardsPoint L (Arc og radius startAngle endAngle)
                          (Some filletCenter)
                  then guideLineAngle + 180 else guideLineAngle)
           in Some \<lparr>filletAngle = filletAngle,
                    clipPath = writeProperty (path context) (propertyName context)
                                 (Some (VNumber guideLineAngle))\<rparr>)
      | Line og e \<Rightarrow>
          (let guideLine = Line (0, 0) (0, 1);
               lineAngle = angle_ofLineInDegrees L (Line og e);
               guideLine = path_rotate L guideLine lineAngle (0, 0);
               guideLine = path_moveRelative L guideLine filletCenter
           in case slopeIntersectionPoint L (Line og e) guideLine of
                None \<Rightarrow> None
              | Some intersectionPoint \<Rightarrow>
                  Some \<lparr>filletAngle =
                          angle_toDegrees L
                            (angle_ofPointInRadians L filletCenter intersectionPoint),
                        clipPath = writeProperty (path context) (propertyName context)
                                     (Some (VPoint intersectionPoint))\<rparr>)
      | Circle og r \<Rightarrow> None)"

text \<open>
  The second part (lines 193 to 208) clips the path, measures it and puts the old value
  back.
\<close>

definition getFilletResult ::
  "library \<Rightarrow> IMatchPointProperty \<Rightarrow> real \<Rightarrow> IPoint \<Rightarrow> store \<Rightarrow>
   IFilletResult option \<times> store" where
  "getFilletResult L context filletRadius filletCenter st =
     (case filletResultOf L st context filletRadius filletCenter of
        None \<Rightarrow> (None, st)
      | Some result \<Rightarrow>
          (let originalValue = getProperty (heap st (path context)) (propertyName context);
               st1 = clipPath result st;
               result' = (if measure_pathLength L (heap st1 (path context)) = 0
                          then None else Some result);
               st2 = writeProperty (path context) (propertyName context) originalValue st1
           in (result', st2)))"

subsection \<open>fillet\<close>

text \<open>The three loops of \<^verbatim>\<open>fillet\<close>, each \<^verbatim>\<open>for (var i = 0; i < 2; i++)\<close>.\<close>

text \<open>Lines 231 to 237; \<open>None\<close> is the \<^verbatim>\<open>return null\<close> inside the loop.\<close>

function shardLoop ::
  "library \<Rightarrow> store \<Rightarrow> IPath \<Rightarrow> IMatchPointProperty list \<Rightarrow> nat \<Rightarrow>
   IMatchPointProperty list option" where
  "shardLoop L st shardCircle commonProperty i =
     (if i < 2 then
        (case intersection L (Some shardCircle) (Some (heap st (path (commonProperty ! i)))) of
           None \<Rightarrow> None
         | Some (IPathIntersection p ps) \<Rightarrow>
             shardLoop L st shardCircle
               (commonProperty[i := (commonProperty ! i)\<lparr>shardPoint := Some p\<rparr>]) (i + 1))
      else Some commonProperty)"
  by pat_completeness auto
termination
  by (relation "measure (\<lambda>(L, st, shardCircle, commonProperty, i). 2 - i)") auto

text \<open>Lines 240 to 245.\<close>

function guideLoop ::
  "library \<Rightarrow> store \<Rightarrow> IMatchPointProperty list \<Rightarrow> real \<Rightarrow> nat \<Rightarrow> IPath option list \<Rightarrow>
   IPath option list" where
  "guideLoop L st commonProperty filletRadius i guidePaths =
     (if i < 2 then
        (let otherPathShardPoint = shardPoint (commonProperty ! (1 - i));
             guidePath = getGuidePath L st (commonProperty ! i) filletRadius otherPathShardPoint
         in guideLoop L st commonProperty filletRadius (i + 1) (guidePaths @ [guidePath]))
      else guidePaths)"
  by pat_completeness auto
termination
  by (relation "measure (\<lambda>(L, st, commonProperty, filletRadius, i, guidePaths). 2 - i)") auto

text \<open>Lines 261 to 268; \<open>None\<close> is the \<^verbatim>\<open>return null\<close> inside the loop.\<close>

function resultLoop ::
  "library \<Rightarrow> IMatchPointProperty list \<Rightarrow> real \<Rightarrow> IPoint \<Rightarrow> nat \<Rightarrow> IFilletResult list \<Rightarrow>
   store \<Rightarrow> IFilletResult list option \<times> store" where
  "resultLoop L commonProperty filletRadius center i results st =
     (if i < 2 then
        (case getFilletResult L (commonProperty ! i) filletRadius center st of
           (None, st') \<Rightarrow> (None, st')
         | (Some result, st') \<Rightarrow>
             resultLoop L commonProperty filletRadius center (i + 1) (results @ [result]) st')
      else (Some results, st))"
  by pat_completeness auto
termination
  by (relation "measure (\<lambda>(L, commonProperty, filletRadius, center, i, results, st). 2 - i)")
     auto

text \<open>Lines 251 to 258: the center of the fillet among the points where the guides meet.\<close>

definition filletCenterOf :: "library \<Rightarrow> IMatchPointProperty list \<Rightarrow> IPathIntersection \<Rightarrow> IPoint" where
  "filletCenterOf L commonProperty intersectionPoint =
     (if length (intersectionPoints intersectionPoint) = 1
      then intersectionPoints intersectionPoint ! 0
      else point_closest L (point (commonProperty ! 0)) (intersectionPoints intersectionPoint))"

text \<open>Lines 270 to 288: the arc, its span, the swap, and the two clips.\<close>

definition commitFillet ::
  "library \<Rightarrow> IPoint \<Rightarrow> real \<Rightarrow> IFilletResult list \<Rightarrow> store \<Rightarrow> IPath option \<times> store" where
  "commitFillet L center filletRadius results st =
     (let filletArc = Arc center filletRadius (filletAngle (results ! 0))
                        (filletAngle (results ! 1));
          filletSpan = measure_arcAngle L filletArc
      in if filletSpan = 180 then (None, st)
         else
           (let filletArc =
                  (if filletSpan > 180
                   then Arc center filletRadius (filletAngle (results ! 1))
                          (filletAngle (results ! 0))
                   else filletArc);
                st = clipPath (results ! 0) st;
                st = clipPath (results ! 1) st
            in (Some filletArc, st)))"

text \<open>
  \<^verbatim>\<open>fillet(path1, path2, filletRadius)\<close>. The result is \<open>Inl TypeError\<close> when the call
  throws, \<open>Inr None\<close> when it returns \<^verbatim>\<open>null\<close> and \<open>Inr (Some arc)\<close> when it returns
  the fillet arc; the second component is the store after the call.
\<close>

definition fillet ::
  "library \<Rightarrow> ref option \<Rightarrow> ref option \<Rightarrow> real \<Rightarrow> store \<Rightarrow> (error + IPath option) \<times> store" where
  "fillet L path1 path2 filletRadius st =
     (case path1 of
        None \<Rightarrow> (Inr None, st)
      | Some p1 \<Rightarrow>
     (case path2 of
        None \<Rightarrow> (Inr None, st)
      | Some p2 \<Rightarrow>
     if filletRadius \<noteq> 0 \<and> filletRadius > 0 then
       (case getMatchingPointProperties L st p1 p2 of
          Inl e \<Rightarrow> (Inl e, st)
        | Inr None \<Rightarrow> (Inr None, st)
        | Inr (Some commonProperty) \<Rightarrow>
            (let shardCircle = Circle (point (commonProperty ! 0)) filletRadius
             in case shardLoop L st shardCircle commonProperty 0 of
                  None \<Rightarrow> (Inr None, st)
                | Some commonProperty \<Rightarrow>
                    (let guidePaths = guideLoop L st commonProperty filletRadius 0 []
                     in case intersection L (guidePaths ! 0) (guidePaths ! 1) of
                          None \<Rightarrow> (Inr None, st)
                        | Some intersectionPoint \<Rightarrow>
                            (let center = filletCenterOf L commonProperty intersectionPoint
                             in case resultLoop L commonProperty filletRadius center 0 [] st of
                                  (None, st') \<Rightarrow> (Inr None, st')
                                | (Some results, st') \<Rightarrow>
                                    (case commitFillet L center filletRadius results st' of
                                       (r, st'') \<Rightarrow> (Inr r, st''))))))
     else (Inr None, st)))"

section \<open>A reference geometry\<close>

text \<open>
  The theorems below hold for every library. To run the core on concrete paths, this
  section gives one library, written after the contracts of section 6 of the
  specification. Intersections are computed for the pairs of paths that the core asks for:
  the probe circle with a line or an arc, and a guide with a guide, each a line or an arc.
  For two circles \<open>intersection\<close> reports none. The functions on arcs that the core calls
  directly (the end points, the split at a point, the concavity test, the length and the
  span) are given in full.
\<close>

definition toRadians :: "real \<Rightarrow> real" where
  \<comment> \<open>Modelled from the spec: degree to radian conversion of the angle utilities.\<close>
  "toRadians a = a * pi / 180"

definition toDegrees :: "real \<Rightarrow> real" where
  \<comment> \<open>Modelled from the spec: radian to degree conversion of the angle utilities.\<close>
  "toDegrees a = a * 180 / pi"

definition noRevolutions :: "real \<Rightarrow> real" where
  \<comment> \<open>Modelled from the spec: an angle in degrees normalized to the range from 0 to 360,
      360 excluded.\<close>
  "noRevolutions a = a - 360 * of_int \<lfloor>a / 360\<rfloor>"

definition atan2 :: "real \<Rightarrow> real \<Rightarrow> real" where
  \<comment> \<open>Modelled from the spec: the angle of the vector \<open>(x, y)\<close> in radians, as
      JavaScript's \<^verbatim>\<open>Math.atan2(y, x)\<close> gives it on the reals.\<close>
  "atan2 y x =
     (if 0 < x then arctan (y / x)
      else if x < 0 then (if 0 \<le> y then arctan (y / x) + pi else arctan (y / x) - pi)
      else if 0 < y then pi / 2
      else if y < 0 then - (pi / 2)
      else 0)"

definition ofPointInRadians :: "IPoint \<Rightarrow> IPoint \<Rightarrow> real" where
  \<comment> \<open>Modelled from the spec: angle-of-vector(from, to) in radians.\<close>
  "ofPointInRadians og p = atan2 (snd p - snd og) (fst p - fst og)"

fun ofLineInDegrees :: "IPath \<Rightarrow> real" where
  \<comment> \<open>Modelled from the spec: angle-of-line-in-degrees(line).\<close>
  "ofLineInDegrees (Line og e) = toDegrees (ofPointInRadians og e)"
| "ofLineInDegrees pth = 0"

definition fromPolar :: "real \<Rightarrow> real \<Rightarrow> IPoint" where
  \<comment> \<open>Modelled from the spec: point ops, the point at an angle in radians and a distance
      from the origin.\<close>
  "fromPolar a r = (r * cos a, r * sin a)"

definition addPoints :: "IPoint \<Rightarrow> IPoint \<Rightarrow> IPoint" where
  \<comment> \<open>Modelled from the spec: point ops, the sum of two vectors.\<close>
  "addPoints p q = (fst p + fst q, snd p + snd q)"

definition subtractPoints :: "IPoint \<Rightarrow> IPoint \<Rightarrow> IPoint" where
  \<comment> \<open>Modelled from the spec: point ops, the difference of two vectors.\<close>
  "subtractPoints p q = (fst p - fst q, snd p - snd q)"

definition scalePoint :: "IPoint \<Rightarrow> real \<Rightarrow> IPoint" where
  \<comment> \<open>Modelled from the spec: point ops, a vector times a number.\<close>
  "scalePoint p k = (fst p * k, snd p * k)"

definition cross :: "IPoint \<Rightarrow> IPoint \<Rightarrow> real" where
  \<comment> \<open>Modelled from the spec: point ops, the cross product of two vectors in the plane.\<close>
  "cross p q = fst p * snd q - snd p * fst q"

definition dot :: "IPoint \<Rightarrow> IPoint \<Rightarrow> real" where
  \<comment> \<open>Modelled from the spec: point ops, the scalar product of two vectors.\<close>
  "dot p q = fst p * fst q + snd p * snd q"

definition pointDistance :: "IPoint \<Rightarrow> IPoint \<Rightarrow> real" where
  \<comment> \<open>Modelled from the spec: the distance of two points, by which closest(reference,
      candidates) chooses.\<close>
  "pointDistance p q = sqrt ((fst q - fst p)\<^sup>2 + (snd q - snd p)\<^sup>2)"

fun fromArc :: "IPath \<Rightarrow> IPoint \<times> IPoint" where
  \<comment> \<open>Modelled from the spec: point-from-arc-angle(arc, angleDeg), at the start angle and
      at the end angle.\<close>
  "fromArc (Arc og r sa ea) =
     (addPoints og (fromPolar (toRadians sa) r), addPoints og (fromPolar (toRadians ea) r))"
| "fromArc (Line og e) = (og, e)"
| "fromArc (Circle og r) = (og, og)"

definition roundTo7 :: "real \<Rightarrow> int" where
  \<comment> \<open>Modelled from the spec: the fixed decimal tolerance of the rounded equality, a
      number as its multiple of one ten-millionth, rounded half up.\<close>
  "roundTo7 x = \<lfloor>x * 10000000 + 1 / 2\<rfloor>"

definition areEqualRounded :: "IPoint \<Rightarrow> IPoint \<Rightarrow> bool" where
  \<comment> \<open>Modelled from the spec: equality-with-tolerance(p, q), coordinates equal to within
      a fixed decimal tolerance (here: equal when rounded to seven decimals).\<close>
  "areEqualRounded p q \<longleftrightarrow> roundTo7 (fst p) = roundTo7 (fst q) \<and> roundTo7 (snd p) = roundTo7 (snd q)"

fun closest :: "IPoint \<Rightarrow> IPoint list \<Rightarrow> IPoint" where
  \<comment> \<open>Modelled from the spec: closest(reference, candidates), the candidate at the least
      distance from the reference, the earliest one among equals. (On an empty list the
      library has no point to give; the reference stands in.)\<close>
  "closest referencePoint [] = referencePoint"
| "closest referencePoint [p] = p"
| "closest referencePoint (p # q # ps) =
     (let best = closest referencePoint (q # ps)
      in if pointDistance referencePoint p \<le> pointDistance referencePoint best then p else best)"

fun arcAngle :: "IPath \<Rightarrow> real" where
  \<comment> \<open>Modelled from the spec: arc-angular-span(arc), the sweep from the start angle to the
      end angle normalized to the range from 0 to 360, 360 excluded.\<close>
  "arcAngle (Arc og r sa ea) = noRevolutions (ea - sa)"
| "arcAngle pth = 0"

fun pathLength :: "IPath \<Rightarrow> real" where
  \<comment> \<open>Modelled from the spec: path-length(path), zero for degenerate paths.\<close>
  "pathLength (Line og e) = pointDistance og e"
| "pathLength (Circle og r) = 2 * pi * r"
| "pathLength (Arc og r sa ea) = 2 * pi * r * (arcAngle (Arc og r sa ea) / 360)"

definition slopeIntersection :: "IPath \<Rightarrow> IPath \<Rightarrow> IPoint option" where
  \<comment> \<open>Modelled from the spec: the point where the infinite extensions of two lines meet,
      none for parallel lines.\<close>
  "slopeIntersection l1 l2 =
     (case (l1, l2) of
        (Line a b, Line c d) \<Rightarrow>
          (let den = cross (subtractPoints b a) (subtractPoints d c)
           in if den = 0 then None
              else Some (addPoints a
                     (scalePoint (subtractPoints b a)
                        (cross (subtractPoints c a) (subtractPoints d c) / den))))
      | _ \<Rightarrow> None)"

definition isBetweenPoints :: "IPoint \<Rightarrow> IPath \<Rightarrow> bool" where
  \<comment> \<open>Modelled from the spec: whether a point of the infinite extension of a line lies
      on the line itself, between its two ends.\<close>
  "isBetweenPoints p l =
     (case l of
        Line a b \<Rightarrow> min (fst a) (fst b) \<le> fst p \<and> fst p \<le> max (fst a) (fst b) \<and>
                    min (snd a) (snd b) \<le> snd p \<and> snd p \<le> max (snd a) (snd b)
      | _ \<Rightarrow> False)"

definition lineToCircle :: "IPoint \<Rightarrow> IPoint \<Rightarrow> IPoint \<Rightarrow> real \<Rightarrow> IPoint list" where
  \<comment> \<open>Modelled from the spec: the intersection of a circle with a line, as the points
      of the segment from \<open>a\<close> to \<open>b\<close> on the circle around \<open>c\<close> with radius \<open>r\<close>,
      the nearer to \<open>a\<close> first.\<close>
  "lineToCircle a b c r =
     (let d = subtractPoints b a;
          f = subtractPoints a c;
          qa = dot d d;
          qb = 2 * dot f d;
          qc = dot f f - r\<^sup>2;
          disc = qb\<^sup>2 - 4 * qa * qc
      in if qa = 0 \<or> disc < 0 then []
         else
           (let t1 = (- qb - sqrt disc) / (2 * qa);
                t2 = (- qb + sqrt disc) / (2 * qa);
                ts = (if disc = 0 then [t1] else [t1, t2])
            in map (\<lambda>t. addPoints a (scalePoint d t)) (filter (\<lambda>t. 0 \<le> t \<and> t \<le> 1) ts)))"

definition someIntersection :: "IPoint list \<Rightarrow> IPathIntersection option" where
  \<comment> \<open>Modelled from the spec: the ordered list of intersection points, or an absent
      result when there is no point.\<close>
  "someIntersection ps = (case ps of [] \<Rightarrow> None | p # qs \<Rightarrow> Some (IPathIntersection p qs))"

definition isOnArc :: "IPoint \<Rightarrow> IPath \<Rightarrow> bool" where
  \<comment> \<open>Modelled from the spec: whether a point of an arc's circle lies within the extent of
      the arc. The chord through the two ends of the arc cuts the circle in two, and the
      arc is the part on the side of the middle of the arc.\<close>
  "isOnArc p arc =
     (case arc of
        Arc og r sa ea \<Rightarrow>
          (let ends = fromArc (Arc og r sa ea);
               middle = addPoints og (fromPolar (toRadians (sa + arcAngle (Arc og r sa ea) / 2)) r);
               chord = subtractPoints (snd ends) (fst ends)
           in 0 \<le> cross chord (subtractPoints p (fst ends)) *
                   cross chord (subtractPoints middle (fst ends)))
      | _ \<Rightarrow> False)"

definition circleToCircle :: "IPoint \<Rightarrow> real \<Rightarrow> IPoint \<Rightarrow> real \<Rightarrow> IPoint list" where
  \<comment> \<open>Modelled from the spec: the intersection of two circles, as the points that lie on
      the circle around \<open>c1\<close> with radius \<open>r1\<close> and on the circle around \<open>c2\<close> with
      radius \<open>r2\<close>.\<close>
  "circleToCircle c1 r1 c2 r2 =
     (let d = pointDistance c1 c2
      in if d = 0 \<or> r1 + r2 < d \<or> d < \<bar>r1 - r2\<bar> then []
         else
           (let a = (r1\<^sup>2 - r2\<^sup>2 + d\<^sup>2) / (2 * d);
                h = sqrt (r1\<^sup>2 - a\<^sup>2);
                m = addPoints c1 (scalePoint (subtractPoints c2 c1) (a / d));
                perp = scalePoint (- snd (subtractPoints c2 c1), fst (subtractPoints c2 c1))
                         (h / d)
            in if h = 0 then [m] else [addPoints m perp, subtractPoints m perp]))"

definition intersect :: "IPath option \<Rightarrow> IPath option \<Rightarrow> IPathIntersection option" where
  \<comment> \<open>Modelled from the spec: intersect(pathA, pathB), the ordered list of intersection
      points or an absent result, for Line with Line, Circle with Line, Line with Arc,
      Circle with Arc and Arc with Arc.\<close>
  "intersect path1 path2 =
     (case (path1, path2) of
        (Some (Line a b), Some (Line c d)) \<Rightarrow>
          (case slopeIntersection (Line a b) (Line c d) of
             None \<Rightarrow> None
           | Some p \<Rightarrow>
               if isBetweenPoints p (Line a b) \<and> isBetweenPoints p (Line c d)
               then Some (IPathIntersection p []) else None)
      | (Some (Circle c r), Some (Line a b)) \<Rightarrow> someIntersection (lineToCircle a b c r)
      | (Some (Line a b), Some (Circle c r)) \<Rightarrow> someIntersection (lineToCircle a b c r)
      | (Some (Line a b), Some (Arc og r sa ea)) \<Rightarrow>
          someIntersection (filter (\<lambda>p. isOnArc p (Arc og r sa ea)) (lineToCircle a b og r))
      | (Some (Arc og r sa ea), Some (Line a b)) \<Rightarrow>
          someIntersection (filter (\<lambda>p. isOnArc p (Arc og r sa ea)) (lineToCircle a b og r))
      | (Some (Circle c r), Some (Arc og ra sa ea)) \<Rightarrow>
          someIntersection
            (filter (\<lambda>p. isOnArc p (Arc og ra sa ea)) (circleToCircle c r og ra))
      | (Some (Arc og ra sa ea), Some (Circle c r)) \<Rightarrow>
          someIntersection
            (filter (\<lambda>p. isOnArc p (Arc og ra sa ea)) (circleToCircle c r og ra))
      | (Some (Arc og1 r1 sa1 ea1), Some (Arc og2 r2 sa2 ea2)) \<Rightarrow>
          someIntersection
            (filter (\<lambda>p. isOnArc p (Arc og1 r1 sa1 ea1) \<and> isOnArc p (Arc og2 r2 sa2 ea2))
               (circleToCircle og1 r1 og2 r2))
      | _ \<Rightarrow> None)"

definition Parallel :: "IPath \<Rightarrow> real \<Rightarrow> IPoint option \<Rightarrow> IPath" where
  \<comment> \<open>Modelled from the spec: a line parallel to a given line at the given offset, on the
      side nearest a reference point.\<close>
  "Parallel toLine distance nearPoint =
     (case toLine of
        Line og e \<Rightarrow>
          (let d = subtractPoints e og;
               len = pointDistance og e;
               right = addPoints og (scalePoint (snd d, - fst d) (distance / len));
               left = addPoints og (scalePoint (- snd d, fst d) (distance / len));
               newOrigin = (case nearPoint of None \<Rightarrow> right | Some np \<Rightarrow> closest np [right, left])
           in Line newOrigin (addPoints newOrigin d))
      | _ \<Rightarrow> toLine)"

definition rotatePoint :: "IPoint \<Rightarrow> real \<Rightarrow> IPoint \<Rightarrow> IPoint" where
  \<comment> \<open>Modelled from the spec: a point rotated by an angle in degrees around a pivot.\<close>
  "rotatePoint p angleInDegrees rotationOrigin =
     (let d = subtractPoints p rotationOrigin;
          a = toRadians angleInDegrees
      in addPoints rotationOrigin
           (fst d * cos a - snd d * sin a, fst d * sin a + snd d * cos a))"

fun rotatePath :: "IPath \<Rightarrow> real \<Rightarrow> IPoint \<Rightarrow> IPath" where
  \<comment> \<open>Modelled from the spec: rotate(path, angleDeg, pivot).\<close>
  "rotatePath (Line og e) a pivot = Line (rotatePoint og a pivot) (rotatePoint e a pivot)"
| "rotatePath (Circle og r) a pivot = Circle (rotatePoint og a pivot) r"
| "rotatePath (Arc og r sa ea) a pivot = Arc (rotatePoint og a pivot) r (sa + a) (ea + a)"

fun moveRelative :: "IPath \<Rightarrow> IPoint \<Rightarrow> IPath" where
  \<comment> \<open>Modelled from the spec: translate(path, deltaVector).\<close>
  "moveRelative (Line og e) delta = Line (addPoints og delta) (addPoints e delta)"
| "moveRelative (Circle og r) delta = Circle (addPoints og delta) r"
| "moveRelative (Arc og r sa ea) delta = Arc (addPoints og delta) r sa ea"

definition breakArcAtPoint :: "IPath \<Rightarrow> IPoint option \<Rightarrow> IPath \<times> IPath option" where
  \<comment> \<open>Modelled from the spec: break-at-point(path, point), which splits a path into two
      sub-paths at that point along its extent: the path keeps the first piece, the second
      is returned, and nothing happens when the point is not strictly inside the extent.
      Given for arcs, the only paths the core breaks.\<close>
  "breakArcAtPoint pathToBreak pointOfBreak =
     (case (pathToBreak, pointOfBreak) of
        (Arc og r sa ea, Some p) \<Rightarrow>
          (let span = arcAngle (Arc og r sa ea);
               off = noRevolutions (toDegrees (ofPointInRadians og p) - sa)
           in if pointDistance og p = r \<and> 0 < off \<and> off < span
              then (Arc og r sa (sa + off), Some (Arc og r (sa + off) ea))
              else (pathToBreak, None))
      | _ \<Rightarrow> (pathToBreak, None))"

definition isArcConcaveTowardsPoint :: "IPath \<Rightarrow> IPoint option \<Rightarrow> bool" where
  \<comment> \<open>Modelled from the spec: is-arc-concave-toward(arc, point), whether the point lies on
      the inward-curving side of the arc: inside the arc's circle, or beyond the arc's
      chord as seen from the middle of the arc.\<close>
  "isArcConcaveTowardsPoint arc towardsPoint =
     (case (arc, towardsPoint) of
        (Arc og r sa ea, Some p) \<Rightarrow>
          pointDistance og p \<le> r \<or>
          (let ends = fromArc (Arc og r sa ea);
               middle = addPoints og (fromPolar (toRadians (sa + arcAngle (Arc og r sa ea) / 2)) r)
           in intersect (Some (Line middle p)) (Some (Line (fst ends) (snd ends))) \<noteq> None)
      | _ \<Rightarrow> False)"

definition geometry :: library where
  \<comment> \<open>Modelled from the spec: the library of section 6, made of the functions above.\<close>
  "geometry =
     \<lparr>point_fromArc = fromArc,
      point_areEqualRounded = areEqualRounded,
      point_closest = closest,
      breakAtPoint = breakArcAtPoint,
      measure_isArcConcaveTowardsPoint = isArcConcaveTowardsPoint,
      measure_pathLength = pathLength,
      measure_arcAngle = arcAngle,
      paths_Parallel = Parallel,
      angle_ofLineInDegrees = ofLineInDegrees,
      angle_toDegrees = toDegrees,
      angle_ofPointInRadians = ofPointInRadians,
      path_rotate = rotatePath,
      path_moveRelative = moveRelative,
      slopeIntersectionPoint = slopeIntersection,
      intersection = intersect\<rparr>"

text \<open>The store with the two paths at references 0 and 1 and nothing written yet.\<close>

definition twoPaths :: "IPath \<Rightarrow> IPath \<Rightarrow> store" where
  "twoPaths p q = \<lparr>heap = (\<lambda>a. if a = 0 then p else q), writes = []\<rparr>"

section \<open>Predicates used to state the claims\<close>

text \<open>A path whose type is neither line nor arc; among the library's paths, a circle.\<close>

definition neitherLineNorArc :: "IPath \<Rightarrow> bool" where
  "neitherLineNorArc pth =
     (case pth of Line og e \<Rightarrow> False | Circle og r \<Rightarrow> True | Arc og r sa ea \<Rightarrow> False)"

text \<open>The names of the two endpoint fields of a path.\<close>

fun endpointField :: "IPath \<Rightarrow> string \<Rightarrow> bool" where
  "endpointField (Line og e) n = (n = ''origin'' \<or> n = ''end'')"
| "endpointField (Arc og r sa ea) n = (n = ''startAngle'' \<or> n = ''endAngle'')"
| "endpointField (Circle og r) n = False"

text \<open>
  \<open>sameExceptField p n p'\<close>: the path \<open>p'\<close> has the type of \<open>p\<close> and the value of
  \<open>p\<close> in every field, except possibly in the endpoint field named \<open>n\<close>.
\<close>

fun sameExceptField :: "IPath \<Rightarrow> string \<Rightarrow> IPath \<Rightarrow> bool" where
  "sameExceptField (Line og e) n (Line og' e') =
     ((n = ''origin'' \<or> og' = og) \<and> (n = ''end'' \<or> e' = e))"
| "sameExceptField (Arc og r sa ea) n (Arc og' r' sa' ea') =
     (og' = og \<and> r' = r \<and> (n = ''startAngle'' \<or> sa' = sa) \<and> (n = ''endAngle'' \<or> ea' = ea))"
| "sameExceptField (Circle og r) n (Circle og' r') = (og' = og \<and> r' = r)"
| "sameExceptField p n p' = False"

text \<open>The kind of value an endpoint field of a path holds: a point on a line, an angle on an arc.\<close>

fun fitsPath :: "IPath \<Rightarrow> pvalue \<Rightarrow> bool" where
  "fitsPath (Line og e) (VPoint p) = True"
| "fitsPath (Arc og r sa ea) (VNumber x) = True"
| "fitsPath p v = False"

text \<open>
  Two lines of length 10 that meet at a right angle in \<open>(10, 0)\<close>; the same two lines in
  the other order; two lines that continue each other; an arc and a line; a line along the
  diameter of a half circle of radius 9 that ends where the half circle starts.
\<close>

definition corner :: store where
  "corner = twoPaths (Line (0, 0) (10, 0)) (Line (10, 0) (10, 10))"

definition cornerSwapped :: store where
  "cornerSwapped = twoPaths (Line (10, 0) (10, 10)) (Line (0, 0) (10, 0))"

definition straight :: store where
  "straight = twoPaths (Line (0, 0) (10, 0)) (Line (10, 0) (20, 0))"

definition halfCircle :: store where
  "halfCircle = twoPaths (Arc (0, 0) 5 0 180) (Line (5, 0) (5, - 10))"

definition lineAndArc :: store where
  "lineAndArc = twoPaths (Line (- 6, 0) (9, 0)) (Arc (0, 0) 9 0 180)"

section \<open>Basic facts about the model\<close>

subsection \<open>Reading and writing a field\<close>

lemma setProperty_getProperty: "setProperty p n (getProperty p n) = p"
  by (cases p) auto

lemma setProperty_restore: "setProperty (setProperty p n v) n (getProperty p n) = p"
  by (cases "(p, n, v)" rule: setProperty.cases) (auto simp: setProperty_getProperty)

lemma sameExceptField_refl: "endpointField p n \<Longrightarrow> sameExceptField p n p"
  by (cases p) auto

lemma sameExceptField_setProperty:
  "endpointField p n \<Longrightarrow> sameExceptField p n (setProperty p n v)"
  by (cases "(p, n, v)" rule: setProperty.cases) (auto simp: sameExceptField_refl)

lemma endpointField_setProperty:
  "endpointField (setProperty p n v) m = endpointField p m"
  by (cases "(p, n, v)" rule: setProperty.cases) auto

lemma sameExceptField_trans:
  "sameExceptField p n p' \<Longrightarrow> sameExceptField p' n p'' \<Longrightarrow> sameExceptField p n p''"
  by (cases "(p, n, p')" rule: sameExceptField.cases;
      cases "(p', n, p'')" rule: sameExceptField.cases) auto

lemma sameExceptField_setProperty2:
  "endpointField p n \<Longrightarrow> sameExceptField p n (setProperty (setProperty p n v) n w)"
  by (rule sameExceptField_trans [OF sameExceptField_setProperty sameExceptField_setProperty])
     (simp_all add: endpointField_setProperty)

lemma setProperty_twice:
  "fitsPath p w \<Longrightarrow> fitsPath p v \<Longrightarrow> setProperty (setProperty p n (Some v)) n (Some w) = setProperty p n (Some w)"
  by (cases "(p, w)" rule: fitsPath.cases; cases "(p, v)" rule: fitsPath.cases) auto

lemma getProperty_setProperty:
  "endpointField p n \<Longrightarrow> fitsPath p v \<Longrightarrow> getProperty (setProperty p n (Some v)) n = Some v"
  by (cases "(p, v)" rule: fitsPath.cases) auto

lemma getProperty_setProperty_other:
  "n \<noteq> m \<Longrightarrow> getProperty (setProperty p m v) n = getProperty p n"
  by (cases "(p, m, v)" rule: setProperty.cases) auto

lemma fitsPath_setProperty: "fitsPath (setProperty p n v) w = fitsPath p w"
  by (cases "(p, n, v)" rule: setProperty.cases; cases w) auto

subsection \<open>The names that the matcher hands out\<close>

lemma getPointProperties_names:
  "getPointProperties L p = Some props \<Longrightarrow> i < 2 \<Longrightarrow> endpointField p (propertyName (props ! i))"
  by (cases p) (auto simp: getPointProperties_def Let_def less_2_cases_iff)

lemma getPointProperties_names_inj:
  "getPointProperties L p = Some props \<Longrightarrow> i < 2 \<Longrightarrow> j < 2 \<Longrightarrow>
     propertyName (props ! i) = propertyName (props ! j) \<Longrightarrow> i = j"
  by (cases p) (auto simp: getPointProperties_def Let_def less_2_cases_iff)

lemma makeMatch_simps [simp]:
  "path (makeMatch p props i) = p"
  "propertyName (makeMatch p props i) = propertyName (props ! i)"
  "point (makeMatch p props i) = point (props ! i)"
  "isStart (makeMatch p props i) = (i = 0)"
  by (simp_all add: makeMatch_def)

lemma getMatchingPointProperties_Some:
  assumes "getMatchingPointProperties L st p1 p2 = Inr (Some cp0)"
  obtains props1 props2 i1 i2 where
    "getPointProperties L (heap st p1) = Some props1"
    "getPointProperties L (heap st p2) = Some props2"
    "i1 < 2" "i2 < 2"
    "cp0 = [makeMatch p1 props1 i1, makeMatch p2 props2 i2]"
    "point_areEqualRounded L (point (props1 ! i1)) (point (props2 ! i2))"
    "(i1, i2) \<noteq> (0, 0) \<Longrightarrow> \<not> point_areEqualRounded L (point (props1 ! 0)) (point (props2 ! 0))"
proof -
  from assms obtain props1 props2 where
    g: "getPointProperties L (heap st p1) = Some props1"
       "getPointProperties L (heap st p2) = Some props2"
    by (auto simp: getMatchingPointProperties_def check_def orElse_def Let_def
          split: option.splits)
  define e where "e i j = point_areEqualRounded L (point (props1 ! i)) (point (props2 ! j))"
    for i j
  have r: "Inr (Some cp0) =
      (if e 0 0 then Inr (Some [makeMatch p1 props1 0, makeMatch p2 props2 0])
       else if e 0 1 then Inr (Some [makeMatch p1 props1 0, makeMatch p2 props2 1])
       else if e 1 0 then Inr (Some [makeMatch p1 props1 1, makeMatch p2 props2 0])
       else if e 1 1 then Inr (Some [makeMatch p1 props1 1, makeMatch p2 props2 1])
       else (Inr None :: error + IMatchPointProperty list option))"
    unfolding assms [symmetric] using g
    by (simp add: getMatchingPointProperties_def check_def orElse_def e_def)
  consider "e 0 0" | "\<not> e 0 0" "e 0 1" | "\<not> e 0 0" "\<not> e 0 1" "e 1 0"
    | "\<not> e 0 0" "\<not> e 0 1" "\<not> e 1 0" "e 1 1"
    using r by (auto split: if_splits)
  then show thesis
  proof cases
    case 1 with r that [of props1 props2 0 0] g show ?thesis by (simp add: e_def)
  next
    case 2 with r that [of props1 props2 0 1] g show ?thesis by (simp add: e_def)
  next
    case 3 with r that [of props1 props2 1 0] g show ?thesis by (simp add: e_def)
  next
    case 4 with r that [of props1 props2 1 1] g show ?thesis by (simp add: e_def)
  qed
qed

lemma getMatchingPointProperties_names:
  assumes "getMatchingPointProperties L st p1 p2 = Inr (Some cp0)"
  shows "path (cp0 ! 0) = p1 \<and> path (cp0 ! 1) = p2 \<and>
         endpointField (heap st p1) (propertyName (cp0 ! 0)) \<and>
         endpointField (heap st p2) (propertyName (cp0 ! 1))"
proof -
  from assms obtain props1 props2 i1 i2 where
    "getPointProperties L (heap st p1) = Some props1"
    "getPointProperties L (heap st p2) = Some props2"
    "i1 < 2" "i2 < 2" "cp0 = [makeMatch p1 props1 i1, makeMatch p2 props2 i2]"
    by (rule getMatchingPointProperties_Some)
  then show ?thesis by (simp add: getPointProperties_names)
qed

subsection \<open>The loops run twice\<close>

lemma shardLoop_unroll:
  "shardLoop L st sc cp 0 =
     (case intersection L (Some sc) (Some (heap st (path (cp ! 0)))) of
        None \<Rightarrow> None
      | Some (IPathIntersection p ps) \<Rightarrow>
          (let cp1 = cp[0 := (cp ! 0)\<lparr>shardPoint := Some p\<rparr>]
           in case intersection L (Some sc) (Some (heap st (path (cp1 ! 1)))) of
                None \<Rightarrow> None
              | Some (IPathIntersection q qs) \<Rightarrow>
                  Some (cp1[1 := (cp1 ! 1)\<lparr>shardPoint := Some q\<rparr>])))"
  by (simp add: Let_def split: option.splits IPathIntersection.splits)

lemma guideLoop_unroll:
  "guideLoop L st cp r 0 [] =
     [getGuidePath L st (cp ! 0) r (shardPoint (cp ! 1)),
      getGuidePath L st (cp ! 1) r (shardPoint (cp ! 0))]"
  by (simp add: Let_def)

lemma resultLoop_unroll:
  "resultLoop L cp r c 0 [] st =
     (case getFilletResult L (cp ! 0) r c st of
        (None, st1) \<Rightarrow> (None, st1)
      | (Some r0, st1) \<Rightarrow>
          (case getFilletResult L (cp ! 1) r c st1 of
             (None, st2) \<Rightarrow> (None, st2)
           | (Some r1, st2) \<Rightarrow> (Some [r0, r1], st2)))"
  by (simp split: prod.splits option.splits)

declare shardLoop.simps [simp del] guideLoop.simps [simp del] resultLoop.simps [simp del]

lemma shardLoop_Some:
  assumes "shardLoop L st sc [m1, m2] 0 = Some cp"
  obtains s1 s2 where "cp = [m1\<lparr>shardPoint := Some s1\<rparr>, m2\<lparr>shardPoint := Some s2\<rparr>]"
  using assms unfolding shardLoop_unroll
  by (auto simp: Let_def split: option.splits IPathIntersection.splits)

subsection \<open>The validation of an outcome puts the path back\<close>

lemma filletResultOf_clipPath:
  "filletResultOf L st ctx r c = Some res \<Longrightarrow>
     \<exists>v. clipPath res = writeProperty (path ctx) (propertyName ctx) (Some v)"
  by (auto simp: filletResultOf_def Let_def split: IPath.splits option.splits)

lemma getFilletResult_heap:
  "getFilletResult L ctx r c st = (res, st') \<Longrightarrow> heap st' = heap st"
  by (auto simp: getFilletResult_def Let_def writeProperty_def setProperty_restore
        split: option.splits dest!: filletResultOf_clipPath)

lemma filletResultOf_heap:
  "heap st1 = heap st \<Longrightarrow> filletResultOf L st1 ctx r c = filletResultOf L st ctx r c"
  by (simp add: filletResultOf_def)

lemma filletResultOf_Some:
  "filletResultOf L st ctx r c = Some res \<Longrightarrow>
     \<exists>v. clipPath res = writeProperty (path ctx) (propertyName ctx) (Some v) \<and>
         fitsPath (heap st (path ctx)) v"
  by (auto simp: filletResultOf_def Let_def split: IPath.splits option.splits)

lemma getFilletResult_Some:
  assumes "getFilletResult L ctx r c st = (Some res, st')"
  obtains v where
    "filletResultOf L st ctx r c = Some res"
    "clipPath res = writeProperty (path ctx) (propertyName ctx) (Some v)"
    "fitsPath (heap st (path ctx)) v"
    "measure_pathLength L (setProperty (heap st (path ctx)) (propertyName ctx) (Some v)) \<noteq> 0"
    "heap st' = heap st"
    "writes st' = writes st @ [(path ctx, propertyName ctx), (path ctx, propertyName ctx)]"
proof -
  from assms obtain res0 where f: "filletResultOf L st ctx r c = Some res0"
    by (auto simp: getFilletResult_def split: option.splits)
  from filletResultOf_Some [OF f] obtain v where
    v: "clipPath res0 = writeProperty (path ctx) (propertyName ctx) (Some v)"
       "fitsPath (heap st (path ctx)) v" by blast
  from assms f v have "res0 = res"
    "measure_pathLength L (setProperty (heap st (path ctx)) (propertyName ctx) (Some v)) \<noteq> 0"
    "writes st' = writes st @ [(path ctx, propertyName ctx), (path ctx, propertyName ctx)]"
    by (auto simp: getFilletResult_def Let_def writeProperty_def split: if_splits)
  with f v getFilletResult_heap [OF assms] that show thesis by blast
qed

lemma getFilletResult_writes:
  "getFilletResult L ctx r c st = (res, st') \<Longrightarrow>
     writes st' = writes st \<or>
     writes st' = writes st @ [(path ctx, propertyName ctx), (path ctx, propertyName ctx)]"
  by (auto simp: getFilletResult_def Let_def writeProperty_def
        split: option.splits dest!: filletResultOf_clipPath)

lemma getFilletResult_fst_heap:
  "heap st1 = heap st \<Longrightarrow>
     fst (getFilletResult L ctx r c st1) = fst (getFilletResult L ctx r c st)"
  by (auto simp: getFilletResult_def Let_def writeProperty_def filletResultOf_heap [of st1 st]
        split: option.splits dest!: filletResultOf_clipPath)

lemma resultLoop_heap:
  "resultLoop L cp r c 0 [] st = (res, st') \<Longrightarrow> heap st' = heap st"
  unfolding resultLoop_unroll
  by (auto split: prod.splits option.splits dest!: getFilletResult_heap)

lemma resultLoop_writes:
  assumes "resultLoop L cp r c 0 [] st = (res, st2)"
  shows "\<exists>ws. writes st2 = writes st @ ws \<and>
              set ws \<subseteq> {(path (cp ! 0), propertyName (cp ! 0)), (path (cp ! 1), propertyName (cp ! 1))}"
proof -
  obtain x0 st1 where g0: "getFilletResult L (cp ! 0) r c st = (x0, st1)"
    by (cases "getFilletResult L (cp ! 0) r c st")
  obtain x1 st1' where g1: "getFilletResult L (cp ! 1) r c st1 = (x1, st1')"
    by (cases "getFilletResult L (cp ! 1) r c st1")
  from assms g0 g1 have "st2 = st1 \<or> st2 = st1'"
    by (auto simp: resultLoop_unroll split: option.splits)
  with getFilletResult_writes [OF g0] getFilletResult_writes [OF g1] show ?thesis
    by auto
qed

lemma resultLoop_Some:
  assumes "resultLoop L cp r c 0 [] st = (Some rs, st2)"
  shows "\<exists>v0 v1. clipPath (rs ! 0) = writeProperty (path (cp ! 0)) (propertyName (cp ! 0)) (Some v0) \<and>
                 clipPath (rs ! 1) = writeProperty (path (cp ! 1)) (propertyName (cp ! 1)) (Some v1)"
proof -
  from assms obtain r0 st1 r1 where
    g: "getFilletResult L (cp ! 0) r c st = (Some r0, st1)"
       "getFilletResult L (cp ! 1) r c st1 = (Some r1, st2)" "rs = [r0, r1]"
    by (auto simp: resultLoop_unroll split: option.splits prod.splits)
  from g(1) obtain v0 where "clipPath r0 = writeProperty (path (cp ! 0)) (propertyName (cp ! 0)) (Some v0)"
    by (rule getFilletResult_Some)
  moreover from g(2) obtain v1 where "clipPath r1 = writeProperty (path (cp ! 1)) (propertyName (cp ! 1)) (Some v1)"
    by (rule getFilletResult_Some)
  ultimately show ?thesis using g(3) by auto
qed

subsection \<open>The last step\<close>

lemma commitFillet_None: "commitFillet L c r rs st = (None, st') \<Longrightarrow> st' = st"
  by (auto simp: commitFillet_def Let_def split: if_splits)

lemma commitFillet_Some:
  "commitFillet L c r rs st = (Some arc, st') \<Longrightarrow>
     (case arc of Arc og rad sa ea \<Rightarrow> og = c \<and> rad = r | _ \<Rightarrow> False)"
  by (auto simp: commitFillet_def Let_def split: if_splits)

lemma commitFillet_store:
  "commitFillet L c r rs st = (Some arc, st') \<Longrightarrow> st' = clipPath (rs ! 1) (clipPath (rs ! 0) st)"
  by (auto simp: commitFillet_def Let_def split: if_splits)

lemma commitFillet_cases:
  "commitFillet L c r rs st = (res, st') \<Longrightarrow>
     (res = None \<and> st' = st) \<or> (res \<noteq> None \<and> st' = clipPath (rs ! 1) (clipPath (rs ! 0) st))"
  by (auto simp: commitFillet_def Let_def split: if_splits)

subsection \<open>What a call went through\<close>

lemma fillet_success:
  assumes "fillet L path1 path2 r st = (Inr (Some arc), st')"
  obtains p1 p2 cp0 cp x r0 st1 r1 st2 where
    "path1 = Some p1" "path2 = Some p2" "0 < r"
    "getMatchingPointProperties L st p1 p2 = Inr (Some cp0)"
    "shardLoop L st (Circle (point (cp0 ! 0)) r) cp0 0 = Some cp"
    "intersection L (guideLoop L st cp r 0 [] ! 0) (guideLoop L st cp r 0 [] ! 1) = Some x"
    "getFilletResult L (cp ! 0) r (filletCenterOf L cp x) st = (Some r0, st1)"
    "getFilletResult L (cp ! 1) r (filletCenterOf L cp x) st1 = (Some r1, st2)"
    "commitFillet L (filletCenterOf L cp x) r [r0, r1] st2 = (Some arc, st')"
  using assms unfolding fillet_def resultLoop_unroll
  by (auto simp: Let_def split: option.splits sum.splits if_splits prod.splits)

lemma fillet_success_store:
  assumes "fillet L (Some p1) (Some p2) r st = (Inr (Some arc), st')"
  obtains props1 props2 i1 i2 v1 v2 where
    "getPointProperties L (heap st p1) = Some props1"
    "getPointProperties L (heap st p2) = Some props2"
    "i1 < 2" "i2 < 2"
    "getMatchingPointProperties L st p1 p2 =
       Inr (Some [makeMatch p1 props1 i1, makeMatch p2 props2 i2])"
    "(i1, i2) \<noteq> (0, 0) \<Longrightarrow> \<not> point_areEqualRounded L (point (props1 ! 0)) (point (props2 ! 0))"
    "fitsPath (heap st p1) v1" "fitsPath (heap st p2) v2"
    "measure_pathLength L (setProperty (heap st p1) (propertyName (props1 ! i1)) (Some v1)) \<noteq> 0"
    "measure_pathLength L (setProperty (heap st p2) (propertyName (props2 ! i2)) (Some v2)) \<noteq> 0"
    "heap st' = (heap st)
       (p1 := setProperty (heap st p1) (propertyName (props1 ! i1)) (Some v1),
        p2 := setProperty (((heap st)(p1 := setProperty (heap st p1) (propertyName (props1 ! i1)) (Some v1))) p2)
                (propertyName (props2 ! i2)) (Some v2))"
    "writes st' = writes st @
       [(p1, propertyName (props1 ! i1)), (p1, propertyName (props1 ! i1)),
        (p2, propertyName (props2 ! i2)), (p2, propertyName (props2 ! i2)),
        (p1, propertyName (props1 ! i1)), (p2, propertyName (props2 ! i2))]"
proof -
  from assms obtain cp0 cp x r0 st1 r1 st2 where
    m: "getMatchingPointProperties L st p1 p2 = Inr (Some cp0)" and
    s: "shardLoop L st (Circle (point (cp0 ! 0)) r) cp0 0 = Some cp" and
    g0: "getFilletResult L (cp ! 0) r (filletCenterOf L cp x) st = (Some r0, st1)" and
    g1: "getFilletResult L (cp ! 1) r (filletCenterOf L cp x) st1 = (Some r1, st2)" and
    c: "commitFillet L (filletCenterOf L cp x) r [r0, r1] st2 = (Some arc, st')"
    by (rule fillet_success) auto
  from m obtain props1 props2 i1 i2 where
    p: "getPointProperties L (heap st p1) = Some props1"
       "getPointProperties L (heap st p2) = Some props2"
       "i1 < 2" "i2 < 2"
       "cp0 = [makeMatch p1 props1 i1, makeMatch p2 props2 i2]"
       "(i1, i2) \<noteq> (0, 0) \<Longrightarrow> \<not> point_areEqualRounded L (point (props1 ! 0)) (point (props2 ! 0))"
    by (rule getMatchingPointProperties_Some) blast
  from s obtain s1 s2 where cp: "cp =
      [(makeMatch p1 props1 i1)\<lparr>shardPoint := Some s1\<rparr>,
       (makeMatch p2 props2 i2)\<lparr>shardPoint := Some s2\<rparr>]"
    unfolding p(5) by (rule shardLoop_Some)
  from g0 obtain v1 where
    a: "clipPath r0 = writeProperty p1 (propertyName (props1 ! i1)) (Some v1)"
       "fitsPath (heap st p1) v1"
       "measure_pathLength L (setProperty (heap st p1) (propertyName (props1 ! i1)) (Some v1)) \<noteq> 0"
       "heap st1 = heap st"
       "writes st1 = writes st @ [(p1, propertyName (props1 ! i1)), (p1, propertyName (props1 ! i1))]"
    by (rule getFilletResult_Some) (simp add: cp)
  from g1 obtain v2 where
    b: "clipPath r1 = writeProperty p2 (propertyName (props2 ! i2)) (Some v2)"
       "fitsPath (heap st p2) v2"
       "measure_pathLength L (setProperty (heap st p2) (propertyName (props2 ! i2)) (Some v2)) \<noteq> 0"
       "heap st2 = heap st"
       "writes st2 = writes st1 @ [(p2, propertyName (props2 ! i2)), (p2, propertyName (props2 ! i2))]"
    by (rule getFilletResult_Some) (simp add: cp a(4))
  have st': "st' = writeProperty p2 (propertyName (props2 ! i2)) (Some v2)
                     (writeProperty p1 (propertyName (props1 ! i1)) (Some v1) st2)"
    using commitFillet_store [OF c] by (simp add: a(1) b(1))
  show thesis
    by (rule that [OF p(1-4) m [unfolded p(5)] p(6) a(2) b(2) a(3) b(3)])
       (simp_all add: st' writeProperty_def a b)
qed

lemma fillet_success_commit:
  assumes "fillet L (Some p1) (Some p2) r st = (Inr (Some arc), st')"
  obtains matched cp x r0 r1 st1 st2 v1 v2 where
    "getMatchingPointProperties L st p1 p2 = Inr (Some matched)"
    "shardLoop L st (Circle (point (matched ! 0)) r) matched 0 = Some cp"
    "intersection L (guideLoop L st cp r 0 [] ! 0) (guideLoop L st cp r 0 [] ! 1) = Some x"
    "getFilletResult L (cp ! 0) r (filletCenterOf L cp x) st = (Some r0, st1)"
    "getFilletResult L (cp ! 1) r (filletCenterOf L cp x) st1 = (Some r1, st2)"
    "clipPath r0 = writeProperty p1 (propertyName (matched ! 0)) (Some v1)"
    "clipPath r1 = writeProperty p2 (propertyName (matched ! 1)) (Some v2)"
    "fitsPath (heap st p1) v1" "fitsPath (heap st p2) v2"
    "heap st' = heap (clipPath r1 (clipPath r0 st))"
proof -
  from assms obtain cp0 cp x r0 st1 r1 st2 where
    m: "getMatchingPointProperties L st p1 p2 = Inr (Some cp0)" and
    s: "shardLoop L st (Circle (point (cp0 ! 0)) r) cp0 0 = Some cp" and
    i: "intersection L (guideLoop L st cp r 0 [] ! 0) (guideLoop L st cp r 0 [] ! 1) = Some x" and
    g0: "getFilletResult L (cp ! 0) r (filletCenterOf L cp x) st = (Some r0, st1)" and
    g1: "getFilletResult L (cp ! 1) r (filletCenterOf L cp x) st1 = (Some r1, st2)" and
    c: "commitFillet L (filletCenterOf L cp x) r [r0, r1] st2 = (Some arc, st')"
    by (rule fillet_success) auto
  from m obtain props1 props2 i1 i2 where
    p: "cp0 = [makeMatch p1 props1 i1, makeMatch p2 props2 i2]"
    by (rule getMatchingPointProperties_Some)
  from s obtain s1 s2 where cp: "cp =
      [(makeMatch p1 props1 i1)\<lparr>shardPoint := Some s1\<rparr>,
       (makeMatch p2 props2 i2)\<lparr>shardPoint := Some s2\<rparr>]"
    unfolding p by (rule shardLoop_Some)
  from g0 obtain v1 where
    a: "clipPath r0 = writeProperty p1 (propertyName (cp0 ! 0)) (Some v1)"
       "fitsPath (heap st p1) v1" "heap st1 = heap st"
    by (rule getFilletResult_Some) (simp add: cp p)
  from g1 obtain v2 where
    b: "clipPath r1 = writeProperty p2 (propertyName (cp0 ! 1)) (Some v2)"
       "fitsPath (heap st p2) v2" "heap st2 = heap st"
    by (rule getFilletResult_Some) (simp add: cp p a(3))
  have "st' = clipPath r1 (clipPath r0 st2)"
    using commitFillet_store [OF c] by simp
  then have "heap st' = heap (clipPath r1 (clipPath r0 st))"
    by (simp add: a(1) b(1) b(3) writeProperty_def)
  with m s i g0 g1 a(1) b(1) a(2) b(2) show thesis by (rule that)
qed


lemma fillet_store_cases:
  assumes "fillet L (Some p1) (Some p2) r st = (res, st')"
  shows "st' = st \<or>
         (\<exists>cp0 cp c rr st2.
            getMatchingPointProperties L st p1 p2 = Inr (Some cp0) \<and>
            shardLoop L st (Circle (point (cp0 ! 0)) r) cp0 0 = Some cp \<and>
            resultLoop L cp r c 0 [] st = (rr, st2) \<and>
            (st' = st2 \<or> (\<exists>rs. rr = Some rs \<and> st' = clipPath (rs ! 1) (clipPath (rs ! 0) st2))))"
proof (cases "st' = st")
  case True
  then show ?thesis by simp
next
  case False
  with assms obtain cp0 cp x where
    m: "getMatchingPointProperties L st p1 p2 = Inr (Some cp0)" and
    s: "shardLoop L st (Circle (point (cp0 ! 0)) r) cp0 0 = Some cp" and
    f: "(case resultLoop L cp r (filletCenterOf L cp x) 0 [] st of
           (None, st2) \<Rightarrow> (Inr None, st2)
         | (Some results, st2) \<Rightarrow>
             (case commitFillet L (filletCenterOf L cp x) r results st2 of
                (rr, st3) \<Rightarrow> (Inr rr, st3))) = (res, st')"
    unfolding fillet_def
    by (auto simp: Let_def split: option.splits sum.splits if_splits)
  obtain rr st2 where rl: "resultLoop L cp r (filletCenterOf L cp x) 0 [] st = (rr, st2)"
    by (cases "resultLoop L cp r (filletCenterOf L cp x) 0 [] st")
  have "st' = st2 \<or> (\<exists>rs. rr = Some rs \<and> st' = clipPath (rs ! 1) (clipPath (rs ! 0) st2))"
    using f rl by (auto split: option.splits prod.splits dest!: commitFillet_cases)
  with m s rl show ?thesis by blast
qed

lemma fillet_writes:
  assumes "fillet L (Some p1) (Some p2) r st = (res, st')"
  shows "\<exists>ws. writes st' = writes st @ ws \<and>
              (\<forall>(a, n)\<in>set ws. (a = p1 \<or> a = p2) \<and> endpointField (heap st a) n)"
proof -
  from fillet_store_cases [OF assms] consider "st' = st"
    | cp0 cp c rr st2 where
        "getMatchingPointProperties L st p1 p2 = Inr (Some cp0)"
        "shardLoop L st (Circle (point (cp0 ! 0)) r) cp0 0 = Some cp"
        "resultLoop L cp r c 0 [] st = (rr, st2)"
        "st' = st2 \<or> (\<exists>rs. rr = Some rs \<and> st' = clipPath (rs ! 1) (clipPath (rs ! 0) st2))"
    by blast
  then show ?thesis
  proof cases
    case 1
    then show ?thesis by simp
  next
    case 2
    from 2(1) obtain props1 props2 i1 i2 where
      p: "getPointProperties L (heap st p1) = Some props1"
         "getPointProperties L (heap st p2) = Some props2"
         "i1 < 2" "i2 < 2"
         "cp0 = [makeMatch p1 props1 i1, makeMatch p2 props2 i2]"
      by (rule getMatchingPointProperties_Some)
    from 2(2) obtain s1 s2 where cp: "cp =
        [(makeMatch p1 props1 i1)\<lparr>shardPoint := Some s1\<rparr>,
         (makeMatch p2 props2 i2)\<lparr>shardPoint := Some s2\<rparr>]"
      unfolding p(5) by (rule shardLoop_Some)
    define n1 where "n1 = propertyName (props1 ! i1)"
    define n2 where "n2 = propertyName (props2 ! i2)"
    have e: "endpointField (heap st p1) n1" "endpointField (heap st p2) n2"
      using getPointProperties_names [OF p(1) p(3)] getPointProperties_names [OF p(2) p(4)]
      by (simp_all add: n1_def n2_def)
    from resultLoop_writes [OF 2(3)] obtain ws where
      ws: "writes st2 = writes st @ ws" "set ws \<subseteq> {(p1, n1), (p2, n2)}"
      by (auto simp: cp n1_def n2_def)
    from 2(4) show ?thesis
    proof
      assume "st' = st2"
      with ws e show ?thesis by auto
    next
      assume "\<exists>rs. rr = Some rs \<and> st' = clipPath (rs ! 1) (clipPath (rs ! 0) st2)"
      then obtain rs where rs: "rr = Some rs" "st' = clipPath (rs ! 1) (clipPath (rs ! 0) st2)"
        by blast
      from resultLoop_Some [OF 2(3) [unfolded rs(1)]] obtain v0 v1 where
        "clipPath (rs ! 0) = writeProperty p1 n1 (Some v0)"
        "clipPath (rs ! 1) = writeProperty p2 n2 (Some v1)"
        by (auto simp: cp n1_def n2_def)
      with rs(2) ws have "writes st' = writes st @ (ws @ [(p1, n1), (p2, n2)])"
        by (simp add: writeProperty_def)
      with ws(2) e show ?thesis
        by (intro exI [of _ "ws @ [(p1, n1), (p2, n2)]"] conjI) auto
    qed
  qed
qed

lemma fillet_not_success_heap:
  assumes "fillet L path1 path2 r st = (res, st')" and "\<forall>arc. res \<noteq> Inr (Some arc)"
  shows "heap st' = heap st"
  using assms unfolding fillet_def
  by (auto simp: Let_def split: option.splits sum.splits if_splits prod.splits
        dest!: resultLoop_heap commitFillet_None)

subsection \<open>Angles and distances of the reference geometry\<close>

lemma noRevolutions_range: "0 \<le> noRevolutions a \<and> noRevolutions a < 360"
proof -
  have "of_int \<lfloor>a / 360\<rfloor> \<le> a / 360" "a / 360 < of_int \<lfloor>a / 360\<rfloor> + 1" by linarith+
  then show ?thesis unfolding noRevolutions_def by (simp add: field_simps)
qed

lemma noRevolutions_neg:
  assumes "noRevolutions a \<noteq> 0"
  shows "noRevolutions (- a) = 360 - noRevolutions a"
proof -
  define k where "k = \<lfloor>a / 360\<rfloor>"
  have r: "0 \<le> a - 360 * of_int k" "a - 360 * of_int k < 360"
    using noRevolutions_range [of a] by (simp_all add: noRevolutions_def k_def)
  have nz: "a - 360 * of_int k \<noteq> 0" using assms by (simp add: noRevolutions_def k_def)
  have "\<lfloor>(- a) / 360\<rfloor> = - k - 1"
    using r nz by (intro floor_unique) (simp_all add: field_simps)
  then show ?thesis
    by (simp add: noRevolutions_def k_def [symmetric] algebra_simps)
qed

lemma arcAngle_swap:
  "180 < arcAngle (Arc c r a0 a1) \<Longrightarrow> arcAngle (Arc c r a1 a0) < 180"
  using noRevolutions_neg [of "a1 - a0"] by simp

lemma commitFillet_span:
  assumes "measure_arcAngle L = arcAngle" and "commitFillet L c r rs st = (Some arc, st')"
  shows "arcAngle arc < 180"
  using assms arcAngle_swap [of c r "filletAngle (rs ! 0)" "filletAngle (rs ! 1)"]
  by (auto simp: commitFillet_def Let_def split: if_splits)

lemma closest_in: "pts \<noteq> [] \<Longrightarrow> closest ref pts \<in> set pts"
  by (induction ref pts rule: closest.induct) (auto simp: Let_def)

lemma closest_least: "q \<in> set pts \<Longrightarrow> pointDistance ref (closest ref pts) \<le> pointDistance ref q"
  by (induction ref pts rule: closest.induct) (auto simp: Let_def)

text \<open>An angle between 0 and 90 degrees, and the spans that it bounds.\<close>

lemma acute_angle:
  fixes g :: real
  assumes "0 < g" and "g < 90"
  shows "\<lfloor>(180 - g) / 360\<rfloor> = 0" "\<lfloor>(g + 90) / 360\<rfloor> = 0"
    "g \<noteq> 180" "g \<noteq> - 90" "\<not> 90 < g" "g \<noteq> 90"
proof -
  have "0 \<le> (180 - g) / 360" "(180 - g) / 360 < 1" using assms by simp_all
  then show "\<lfloor>(180 - g) / 360\<rfloor> = 0" by (simp add: floor_eq_iff)
  have "0 \<le> (g + 90) / 360" "(g + 90) / 360 < 1" using assms by simp_all
  then show "\<lfloor>(g + 90) / 360\<rfloor> = 0" by (simp add: floor_eq_iff)
  show "g \<noteq> 180" "g \<noteq> - 90" "\<not> 90 < g" "g \<noteq> 90" using assms by linarith+
qed

section \<open>Running the core on the reference geometry\<close>

lemma sqrt_values:
  "sqrt 1600 = 40" "sqrt 100 = 10" "sqrt 40000 = 200" "sqrt 25 = 5" "sqrt 36 = 6"
  "sqrt 225 = 15" "sqrt 16 = 4" "sqrt 64 = 8" "sqrt 81 = 9" "sqrt 14400 = 120"
  "sqrt 8100 = 90"
  by (simp_all add: real_sqrt_unique)

lemmas geometry_defs =
  geometry_def twoPaths_def areEqualRounded_def roundTo7_def intersect_def lineToCircle_def
  someIntersection_def dot_def cross_def subtractPoints_def addPoints_def scalePoint_def
  Parallel_def pointDistance_def slopeIntersection_def isBetweenPoints_def
  ofPointInRadians_def atan2_def toDegrees_def toRadians_def rotatePoint_def
  noRevolutions_def fromPolar_def breakArcAtPoint_def isArcConcaveTowardsPoint_def
  isOnArc_def circleToCircle_def

lemmas fillet_defs =
  fillet_def getMatchingPointProperties_def getPointProperties_def check_def orElse_def
  makeMatch_def shardLoop_unroll guideLoop_unroll resultLoop_unroll getGuidePath_def
  cloneAndBreakPath_def filletResultOf_def getFilletResult_def filletCenterOf_def
  commitFillet_def writeProperty_def

lemma geometry_fields:
  "measure_arcAngle geometry = arcAngle" "point_closest geometry = closest"
  "point_areEqualRounded geometry = areEqualRounded"
  by (simp_all add: geometry_def)

text \<open>
  The scenario of the specification: the corner rounded with radius 2. The arc has center
  \<open>(8, 2)\<close> and spans 90 degrees, the first line now ends in \<open>(8, 0)\<close> and the second
  starts in \<open>(10, 2)\<close>. Each line is clipped and put back once, then clipped for good.
\<close>

lemma corner_radius_2:
  "fillet geometry (Some 0) (Some 1) 2 corner =
     (Inr (Some (Arc (8, 2) 2 (- 90) 0)),
      corner\<lparr>heap := (heap corner)(0 := Line (0, 0) (8, 0), 1 := Line (10, 2) (10, 10)),
             writes := [(0, ''end''), (0, ''end''), (1, ''origin''), (1, ''origin''),
                        (0, ''end''), (1, ''origin'')]\<rparr>)"
  by (simp add: fillet_defs geometry_defs corner_def Let_def sqrt_values power2_eq_square fun_eq_iff)

text \<open>The stages of that call: the matched endpoints, the shard points, the guides.\<close>

lemma corner_matched:
  "getMatchingPointProperties geometry corner 0 1 =
     Inr (Some [\<lparr>point = (10, 0), propertyName = ''end'', path = 0, isStart = False,
                 shardPoint = None\<rparr>,
                \<lparr>point = (10, 0), propertyName = ''origin'', path = 1, isStart = True,
                 shardPoint = None\<rparr>])"
  by (simp add: fillet_defs geometry_defs corner_def)

lemma corner_shards:
  "shardLoop geometry corner (Circle (10, 0) 2)
     [\<lparr>point = (10, 0), propertyName = ''end'', path = 0, isStart = False,
       shardPoint = None\<rparr>,
      \<lparr>point = (10, 0), propertyName = ''origin'', path = 1, isStart = True,
       shardPoint = None\<rparr>] 0 =
   Some [\<lparr>point = (10, 0), propertyName = ''end'', path = 0, isStart = False,
          shardPoint = Some (8, 0)\<rparr>,
         \<lparr>point = (10, 0), propertyName = ''origin'', path = 1, isStart = True,
          shardPoint = Some (10, 2)\<rparr>]"
  by (simp add: fillet_defs geometry_defs corner_def Let_def sqrt_values power2_eq_square)

lemma corner_guides:
  "guideLoop geometry corner
     [\<lparr>point = (10, 0), propertyName = ''end'', path = 0, isStart = False,
       shardPoint = Some (8, 0)\<rparr>,
      \<lparr>point = (10, 0), propertyName = ''origin'', path = 1, isStart = True,
       shardPoint = Some (10, 2)\<rparr>] 2 0 [] =
   [Some (Line (0, 2) (10, 2)), Some (Line (8, 0) (8, 10))]"
  by (simp add: fillet_defs geometry_defs corner_def Let_def sqrt_values power2_eq_square)

lemma corner_guides_meet:
  "intersection geometry (Some (Line (0, 2) (10, 2))) (Some (Line (8, 0) (8, 10))) =
     Some (IPathIntersection (8, 2) [])"
  by (simp add: geometry_defs Let_def)

text \<open>
  The center, and the outcome of each side: the angle of the fillet arc on that side and
  the deferred mutation, which sets the end of the first line to \<open>(8, 0)\<close> and the
  origin of the second to \<open>(10, 2)\<close>.
\<close>

lemma corner_center:
  "filletCenterOf geometry
     [\<lparr>point = (10, 0), propertyName = ''end'', path = 0, isStart = False,
       shardPoint = Some (8, 0)\<rparr>,
      \<lparr>point = (10, 0), propertyName = ''origin'', path = 1, isStart = True,
       shardPoint = Some (10, 2)\<rparr>] (IPathIntersection (8, 2) []) = (8, 2)"
  by (simp add: filletCenterOf_def)

lemma corner_outcome_0:
  "getFilletResult geometry
     \<lparr>point = (10, 0), propertyName = ''end'', path = 0, isStart = False,
      shardPoint = Some (8, 0)\<rparr> 2 (8, 2) corner =
   (Some \<lparr>filletAngle = - 90, clipPath = writeProperty 0 ''end'' (Some (VPoint (8, 0)))\<rparr>,
    corner\<lparr>writes := [(0, ''end''), (0, ''end'')]\<rparr>)"
  by (simp add: fillet_defs geometry_defs corner_def Let_def sqrt_values power2_eq_square fun_eq_iff)

lemma corner_outcome_1:
  "getFilletResult geometry
     \<lparr>point = (10, 0), propertyName = ''origin'', path = 1, isStart = True,
      shardPoint = Some (10, 2)\<rparr> 2 (8, 2)
     (corner\<lparr>writes := [(0, ''end''), (0, ''end'')]\<rparr>) =
   (Some \<lparr>filletAngle = 0, clipPath = writeProperty 1 ''origin'' (Some (VPoint (10, 2)))\<rparr>,
    corner\<lparr>writes := [(0, ''end''), (0, ''end''), (1, ''origin''), (1, ''origin'')]\<rparr>)"
  by (simp add: fillet_defs geometry_defs corner_def Let_def sqrt_values power2_eq_square fun_eq_iff)

text \<open>
  With radius 10 the fillet would meet the first line in its origin: the line is clipped
  to length zero, measured, and put back.
\<close>

lemma corner_radius_10:
  "fillet geometry (Some 0) (Some 1) 10 corner =
     (Inr None, corner\<lparr>writes := [(0, ''end''), (0, ''end'')]\<rparr>)"
  by (simp add: fillet_defs geometry_defs corner_def Let_def sqrt_values power2_eq_square fun_eq_iff)

lemma corner_radius_10_outcome:
  "filletResultOf geometry corner
     \<lparr>point = (10, 0), propertyName = ''end'', path = 0, isStart = False,
      shardPoint = Some (0, 0)\<rparr> 10 (0, 10) =
   Some \<lparr>filletAngle = - 90, clipPath = writeProperty 0 ''end'' (Some (VPoint (0, 0)))\<rparr>"
  by (simp add: fillet_defs geometry_defs corner_def Let_def)

text \<open>With radius 20 the probe circle misses the lines, and nothing is written.\<close>

lemma corner_radius_20: "fillet geometry (Some 0) (Some 1) 20 corner = (Inr None, corner)"
  by (simp add: fillet_defs geometry_defs corner_def Let_def power2_eq_square real_sqrt_unique)

text \<open>
  The same corner with the lines in the other order: the two fillet angles come out as
  0 and -90, a span of 270 degrees, and are swapped.
\<close>

lemma cornerSwapped_radius_2:
  "fillet geometry (Some 0) (Some 1) 2 cornerSwapped =
     (Inr (Some (Arc (8, 2) 2 (- 90) 0)),
      cornerSwapped\<lparr>heap := (heap cornerSwapped)
                              (0 := Line (10, 2) (10, 10), 1 := Line (0, 0) (8, 0)),
                    writes := [(0, ''origin''), (0, ''origin''), (1, ''end''), (1, ''end''),
                               (0, ''origin''), (1, ''end'')]\<rparr>)"
  by (simp add: fillet_defs geometry_defs cornerSwapped_def Let_def sqrt_values power2_eq_square fun_eq_iff)

text \<open>Two lines that continue each other: the guides are parallel and do not meet.\<close>

lemma straight_radius_1: "fillet geometry (Some 0) (Some 1) 1 straight = (Inr None, straight)"
  by (simp add: fillet_defs geometry_defs straight_def Let_def sqrt_values power2_eq_square)

lemma straight_matched:
  "getMatchingPointProperties geometry straight 0 1 =
     Inr (Some [\<lparr>point = (10, 0), propertyName = ''end'', path = 0, isStart = False,
                 shardPoint = None\<rparr>,
                \<lparr>point = (10, 0), propertyName = ''origin'', path = 1, isStart = True,
                 shardPoint = None\<rparr>])"
  by (simp add: fillet_defs geometry_defs straight_def)

lemma straight_shards:
  "shardLoop geometry straight (Circle (10, 0) 1)
     [\<lparr>point = (10, 0), propertyName = ''end'', path = 0, isStart = False,
       shardPoint = None\<rparr>,
      \<lparr>point = (10, 0), propertyName = ''origin'', path = 1, isStart = True,
       shardPoint = None\<rparr>] 0 =
   Some [\<lparr>point = (10, 0), propertyName = ''end'', path = 0, isStart = False,
          shardPoint = Some (9, 0)\<rparr>,
         \<lparr>point = (10, 0), propertyName = ''origin'', path = 1, isStart = True,
          shardPoint = Some (11, 0)\<rparr>]"
  by (simp add: fillet_defs geometry_defs straight_def Let_def sqrt_values power2_eq_square)

lemma straight_guides:
  "guideLoop geometry straight
     [\<lparr>point = (10, 0), propertyName = ''end'', path = 0, isStart = False,
       shardPoint = Some (9, 0)\<rparr>,
      \<lparr>point = (10, 0), propertyName = ''origin'', path = 1, isStart = True,
       shardPoint = Some (11, 0)\<rparr>] 1 0 [] =
   [Some (Line (0, - 1) (10, - 1)), Some (Line (10, - 1) (20, - 1))]"
  by (simp add: fillet_defs geometry_defs straight_def Let_def sqrt_values power2_eq_square)

lemma straight_guides_apart:
  "intersection geometry (Some (Line (0, - 1) (10, - 1))) (Some (Line (10, - 1) (20, - 1))) = None"
  by (simp add: geometry_defs Let_def)

text \<open>
  An arc around \<open>(0, 0)\<close> with radius 5 from 0 to 180 degrees, and a fillet center
  straight above it in \<open>(0, 6)\<close>, outside of the arc. The line from the arc's center to
  the fillet center has the angle 90; the fillet angle is 270; the arc's start angle is
  set to 90.
\<close>

lemma halfCircle_outcome:
  "getFilletResult geometry
     \<lparr>point = (5, 0), propertyName = ''startAngle'', path = 0, isStart = True,
      shardPoint = None\<rparr> 1 (0, 6) halfCircle =
   (Some \<lparr>filletAngle = 270,
          clipPath = writeProperty 0 ''startAngle'' (Some (VNumber 90))\<rparr>,
    halfCircle\<lparr>writes := [(0, ''startAngle''), (0, ''startAngle'')]\<rparr>)"
  by (simp add: fillet_defs geometry_defs halfCircle_def Let_def sqrt_values fun_eq_iff)

text \<open>
  A line along the x axis from \<open>(-6, 0)\<close> to \<open>(9, 0)\<close> and the upper half of the
  circle around \<open>(0, 0)\<close> with radius 9, which starts in \<open>(9, 0)\<close>, rounded with
  radius 4. The probe circle meets the line in \<open>(5, 0)\<close> and the half circle in
  \<open>(73 / 9, sqrt (1232 / 81))\<close>. The guide of the line is the line at height 4, the
  guide of the half circle has radius 5, and they meet twice: in \<open>(-3, 4)\<close>, which comes
  first, and in \<open>(3, 4)\<close>, which is the nearer to the common point \<open>(9, 0)\<close> and
  becomes the center. The fillet arc runs from -90 degrees to the angle of the point
  \<open>(3, 4)\<close>, which lies between 0 and 90 degrees.
\<close>

lemma arctan_4_3: "0 < arctan (4 / 3) * 180 / pi" "arctan (4 / 3) * 180 / pi < 90"
  using arctan_ubound [of "4 / 3"] by (simp_all add: field_simps)

lemma shard_side:
  "\<not> (- 4 - sqrt (1232 / 81)) * (- 4 - sqrt (1232 / 81))
       \<le> (4 - sqrt (1232 / 81)) * (4 - sqrt (1232 / 81))"
proof -
  have "0 < sqrt (1232 / 81)" by simp
  then show ?thesis by (simp add: algebra_simps)
qed

lemma lineAndArc_radius_4:
  "fillet geometry (Some 0) (Some 1) 4 lineAndArc =
     (Inr (Some (Arc (3, 4) 4 (- 90) (toDegrees (arctan (4 / 3))))),
      lineAndArc\<lparr>heap := (heap lineAndArc)
                            (0 := Line (- 6, 0) (3, 0),
                             1 := Arc (0, 0) 9 (toDegrees (arctan (4 / 3))) 180),
                  writes := [(0, ''end''), (0, ''end''), (1, ''startAngle''),
                             (1, ''startAngle''), (0, ''end''), (1, ''startAngle'')]\<rparr>)"
  by (simp add: fillet_defs geometry_defs lineAndArc_def Let_def sqrt_values power2_eq_square
        fun_eq_iff shard_side acute_angle [OF arctan_4_3])

lemma lineAndArc_matched:
  "getMatchingPointProperties geometry lineAndArc 0 1 =
     Inr (Some [\<lparr>point = (9, 0), propertyName = ''end'', path = 0, isStart = False,
                 shardPoint = None\<rparr>,
                \<lparr>point = (9, 0), propertyName = ''startAngle'', path = 1, isStart = True,
                 shardPoint = None\<rparr>])"
  by (simp add: fillet_defs geometry_defs lineAndArc_def)

lemma lineAndArc_shards:
  "shardLoop geometry lineAndArc (Circle (9, 0) 4)
     [\<lparr>point = (9, 0), propertyName = ''end'', path = 0, isStart = False,
       shardPoint = None\<rparr>,
      \<lparr>point = (9, 0), propertyName = ''startAngle'', path = 1, isStart = True,
       shardPoint = None\<rparr>] 0 =
   Some [\<lparr>point = (9, 0), propertyName = ''end'', path = 0, isStart = False,
          shardPoint = Some (5, 0)\<rparr>,
         \<lparr>point = (9, 0), propertyName = ''startAngle'', path = 1, isStart = True,
          shardPoint = Some (73 / 9, sqrt (1232 / 81))\<rparr>]"
  by (simp add: fillet_defs geometry_defs lineAndArc_def Let_def sqrt_values power2_eq_square)

lemma lineAndArc_guides:
  "guideLoop geometry lineAndArc
     [\<lparr>point = (9, 0), propertyName = ''end'', path = 0, isStart = False,
       shardPoint = Some (5, 0)\<rparr>,
      \<lparr>point = (9, 0), propertyName = ''startAngle'', path = 1, isStart = True,
       shardPoint = Some (73 / 9, sqrt (1232 / 81))\<rparr>] 4 0 [] =
   [Some (Line (- 6, 4) (9, 4)), Some (Arc (0, 0) 5 0 180)]"
  by (simp add: fillet_defs geometry_defs lineAndArc_def Let_def sqrt_values power2_eq_square
        shard_side)

lemma lineAndArc_guides_meet:
  "intersection geometry (Some (Line (- 6, 4) (9, 4))) (Some (Arc (0, 0) 5 0 180)) =
     Some (IPathIntersection (- 3, 4) [(3, 4)])"
  by (simp add: geometry_defs Let_def sqrt_values power2_eq_square)

section \<open>The claims\<close>

text \<open>
  C1. Whenever \<^verbatim>\<open>fillet\<close> returns \<^verbatim>\<open>null\<close>, every path of the store, so both
  input paths, is what it was before the call. This covers each way to fail, also the one
  where \<^verbatim>\<open>getFilletResult\<close> has clipped a path to measure it: the old value of the
  field is written back before the function returns.
\<close>

theorem fillet_failure_leaves_paths:
  "fillet L path1 path2 filletRadius st = (Inr None, st') \<Longrightarrow> heap st' = heap st"
  unfolding fillet_def
  by (auto simp: Let_def split: option.splits sum.splits if_splits prod.splits
        dest!: resultLoop_heap commitFillet_None)

theorem fillet_failure_leaves_paths_witness:
  "fst (fillet geometry (Some 0) (Some 1) 10 corner) = Inr None \<and>
   writes (snd (fillet geometry (Some 0) (Some 1) 10 corner)) = [(0, ''end''), (0, ''end'')] \<and>
   heap (snd (fillet geometry (Some 0) (Some 1) 10 corner)) = heap corner"
  using fillet_failure_leaves_paths [OF corner_radius_10]
  unfolding corner_radius_10 by simp

text \<open>
  C2. The span of the arc that a successful call returns is strictly less than 180
  degrees. The span is what the library's \<^verbatim>\<open>measure.arcAngle\<close> gives, here the sweep
  from the start angle to the end angle normalized to the range from 0 to 360. In the last
  step of \<^verbatim>\<open>fillet\<close>, a span of exactly 180 of the two fillet angles makes the call
  return \<^verbatim>\<open>null\<close> with nothing written, a span above 180 makes the returned arc take
  the two angles in the other order, and a span below 180 leaves them in their order.
\<close>

theorem fillet_span_bound:
  assumes "measure_arcAngle L = arcAngle"
  shows "(fillet L path1 path2 filletRadius st = (Inr (Some arc), st') \<longrightarrow> arcAngle arc < 180) \<and>
         (arcAngle (Arc c filletRadius (filletAngle (rs ! 0)) (filletAngle (rs ! 1))) = 180 \<longrightarrow>
            commitFillet L c filletRadius rs st0 = (None, st0)) \<and>
         (180 < arcAngle (Arc c filletRadius (filletAngle (rs ! 0)) (filletAngle (rs ! 1))) \<longrightarrow>
            fst (commitFillet L c filletRadius rs st0) =
              Some (Arc c filletRadius (filletAngle (rs ! 1)) (filletAngle (rs ! 0)))) \<and>
         (arcAngle (Arc c filletRadius (filletAngle (rs ! 0)) (filletAngle (rs ! 1))) < 180 \<longrightarrow>
            fst (commitFillet L c filletRadius rs st0) =
              Some (Arc c filletRadius (filletAngle (rs ! 0)) (filletAngle (rs ! 1))))"
proof -
  have "arcAngle arc < 180" if "fillet L path1 path2 filletRadius st = (Inr (Some arc), st')"
    using that by (rule fillet_success) (rule commitFillet_span [OF assms])
  moreover have
    "arcAngle (Arc c filletRadius (filletAngle (rs ! 0)) (filletAngle (rs ! 1))) = 180 \<longrightarrow>
       commitFillet L c filletRadius rs st0 = (None, st0)"
    by (simp add: commitFillet_def assms)
  moreover have
    "180 < arcAngle (Arc c filletRadius (filletAngle (rs ! 0)) (filletAngle (rs ! 1))) \<longrightarrow>
       fst (commitFillet L c filletRadius rs st0) =
         Some (Arc c filletRadius (filletAngle (rs ! 1)) (filletAngle (rs ! 0)))"
    by (simp add: commitFillet_def assms Let_def)
  moreover have
    "arcAngle (Arc c filletRadius (filletAngle (rs ! 0)) (filletAngle (rs ! 1))) < 180 \<longrightarrow>
       fst (commitFillet L c filletRadius rs st0) =
         Some (Arc c filletRadius (filletAngle (rs ! 0)) (filletAngle (rs ! 1)))"
    by (simp add: commitFillet_def assms Let_def)
  ultimately show ?thesis by blast
qed

theorem fillet_span_bound_witness:
  "arcAngle (Arc (8, 2) 2 (- 90) 0) < 180 \<and>
   commitFillet geometry (8, 2) 2
     [\<lparr>filletAngle = 90, clipPath = id\<rparr>, \<lparr>filletAngle = - 90, clipPath = id\<rparr>]
     cornerSwapped = (None, cornerSwapped) \<and>
   fst (commitFillet geometry (8, 2) 2
     [\<lparr>filletAngle = 0, clipPath = id\<rparr>, \<lparr>filletAngle = - 90, clipPath = id\<rparr>]
     cornerSwapped) = Some (Arc (8, 2) 2 (- 90) 0) \<and>
   fst (commitFillet geometry (8, 2) 2
     [\<lparr>filletAngle = - 90, clipPath = id\<rparr>, \<lparr>filletAngle = 0, clipPath = id\<rparr>]
     cornerSwapped) = Some (Arc (8, 2) 2 (- 90) 0)"
proof -
  let ?st' = "snd (fillet geometry (Some 0) (Some 1) 2 cornerSwapped)"
  have f: "fillet geometry (Some 0) (Some 1) 2 cornerSwapped =
             (Inr (Some (Arc (8, 2) 2 (- 90) 0)), ?st')"
    unfolding cornerSwapped_radius_2 by simp
  have a: "arcAngle (Arc (8, 2) 2 90 (- 90)) = 180" "180 < arcAngle (Arc (8, 2) 2 0 (- 90))"
    "arcAngle (Arc (8, 2) 2 (- 90) 0) < 180"
    by (simp_all add: noRevolutions_def)
  from fillet_span_bound [OF geometry_fields(1), of "Some 0" "Some 1" 2 cornerSwapped
      "Arc (8, 2) 2 (- 90) 0" ?st' "(8, 2)"
      "[\<lparr>filletAngle = 90, clipPath = id\<rparr>, \<lparr>filletAngle = - 90, clipPath = id\<rparr>]"
      cornerSwapped] f a(1)
  have "arcAngle (Arc (8, 2) 2 (- 90) 0) < 180 \<and>
        commitFillet geometry (8, 2) 2
          [\<lparr>filletAngle = 90, clipPath = id\<rparr>, \<lparr>filletAngle = - 90, clipPath = id\<rparr>]
          cornerSwapped = (None, cornerSwapped)"
    by simp
  moreover
  from fillet_span_bound [OF geometry_fields(1), of "Some 0" "Some 1" 2 cornerSwapped
      "Arc (8, 2) 2 (- 90) 0" ?st' "(8, 2)"
      "[\<lparr>filletAngle = 0, clipPath = id\<rparr>, \<lparr>filletAngle = - 90, clipPath = id\<rparr>]"
      cornerSwapped] a(2)
  have "fst (commitFillet geometry (8, 2) 2
          [\<lparr>filletAngle = 0, clipPath = id\<rparr>, \<lparr>filletAngle = - 90, clipPath = id\<rparr>]
          cornerSwapped) = Some (Arc (8, 2) 2 (- 90) 0)"
    by simp
  moreover
  from fillet_span_bound [OF geometry_fields(1), of "Some 0" "Some 1" 2 cornerSwapped
      "Arc (8, 2) 2 (- 90) 0" ?st' "(8, 2)"
      "[\<lparr>filletAngle = - 90, clipPath = id\<rparr>, \<lparr>filletAngle = 0, clipPath = id\<rparr>]"
      cornerSwapped] a(3)
  have "fst (commitFillet geometry (8, 2) 2
          [\<lparr>filletAngle = - 90, clipPath = id\<rparr>, \<lparr>filletAngle = 0, clipPath = id\<rparr>]
          cornerSwapped) = Some (Arc (8, 2) 2 (- 90) 0)"
    by simp
  ultimately show ?thesis by blast
qed

text \<open>
  C3. The arc that a successful call returns is an arc whose radius is the
  \<^verbatim>\<open>filletRadius\<close> that was passed in, the very same number.
\<close>

theorem fillet_radius_fidelity:
  "fillet L path1 path2 filletRadius st = (Inr (Some arc), st') \<Longrightarrow>
     (case arc of Arc og radius sa ea \<Rightarrow> radius = filletRadius | _ \<Rightarrow> False)"
  by (erule fillet_success) (auto dest!: commitFillet_Some split: IPath.splits)

theorem fillet_radius_fidelity_witness:
  "fst (fillet geometry (Some 0) (Some 1) 2 corner) = Inr (Some (Arc (8, 2) 2 (- 90) 0)) \<and>
   (case Arc (8, 2) 2 (- 90) 0 of Arc og radius sa ea \<Rightarrow> radius = (2::real) | _ \<Rightarrow> False)"
  using fillet_radius_fidelity [OF corner_radius_2]
  unfolding corner_radius_2 by simp

text \<open>
  C4, as the code has it. On an arc side, \<^verbatim>\<open>getFilletResult\<close> computes the angle of
  the line from the arc's center to the fillet center. The deferred mutation writes this
  very angle into the matched angle field of the arc, whether the fillet lies inside or
  outside of the arc. The 180 degrees are added only to the fillet angle of the outcome,
  which becomes an angle of the returned fillet arc, and only when the arc is not concave
  towards the fillet center.
\<close>

theorem arc_side_outcome:
  assumes "heap st (path context) = Arc og radius startAngle endAngle"
      and "getFilletResult L context filletRadius filletCenter st = (Some result, st')"
  shows "filletAngle result =
           (if measure_isArcConcaveTowardsPoint L (Arc og radius startAngle endAngle)
                 (Some filletCenter)
            then angle_ofLineInDegrees L (Line og filletCenter)
            else angle_ofLineInDegrees L (Line og filletCenter) + 180) \<and>
         clipPath result =
           writeProperty (path context) (propertyName context)
             (Some (VNumber (angle_ofLineInDegrees L (Line og filletCenter)))) \<and>
         (propertyName context = ''startAngle'' \<longrightarrow>
            heap (clipPath result st) (path context) =
              Arc og radius (angle_ofLineInDegrees L (Line og filletCenter)) endAngle) \<and>
         (propertyName context = ''endAngle'' \<longrightarrow>
            heap (clipPath result st) (path context) =
              Arc og radius startAngle (angle_ofLineInDegrees L (Line og filletCenter)))"
  using assms
  by (auto simp: getFilletResult_def filletResultOf_def Let_def writeProperty_def
        split: if_splits)

theorem arc_side_outcome_witness:
  "filletAngle \<lparr>filletAngle = 270,
               clipPath = writeProperty 0 ''startAngle'' (Some (VNumber 90))\<rparr> = 90 + 180 \<and>
   heap (writeProperty 0 ''startAngle'' (Some (VNumber 90)) halfCircle) 0 = Arc (0, 0) 5 90 180"
proof -
  have h: "heap halfCircle
             (path \<lparr>point = (5::real, 0::real), propertyName = ''startAngle'', path = 0,
                    isStart = True, shardPoint = None\<rparr>) = Arc (0, 0) 5 0 180"
    by (simp add: halfCircle_def twoPaths_def)
  show ?thesis
    using arc_side_outcome [OF h halfCircle_outcome]
    by (simp add: geometry_defs halfCircle_def sqrt_values)
qed

text \<open>
  C4, as the claim has it, fails on the arc of the example above: the fillet lies outside
  of the arc, the angle of the line between the centers plus 180 degrees is 270, and the
  deferred mutation sets the start angle of the arc to 90, not to 270.
\<close>

theorem arc_side_tangency_counterexample:
  "getFilletResult geometry
     \<lparr>point = (5, 0), propertyName = ''startAngle'', path = 0, isStart = True,
      shardPoint = None\<rparr> 1 (0, 6) halfCircle =
   (Some \<lparr>filletAngle = 270,
          clipPath = writeProperty 0 ''startAngle'' (Some (VNumber 90))\<rparr>,
    halfCircle\<lparr>writes := [(0, ''startAngle''), (0, ''startAngle'')]\<rparr>) \<and>
   \<not> measure_isArcConcaveTowardsPoint geometry (Arc (0, 0) 5 0 180) (Some (0, 6)) \<and>
   angle_ofLineInDegrees geometry (Line (0, 0) (0, 6)) + 180 = 270 \<and>
   heap (writeProperty 0 ''startAngle'' (Some (VNumber 90)) halfCircle) 0 =
     Arc (0, 0) 5 90 180 \<and>
   Arc (0, 0) 5 90 180 \<noteq> Arc (0, 0) 5 270 180"
  by (simp add: fillet_defs geometry_defs halfCircle_def Let_def sqrt_values fun_eq_iff)

text \<open>
  C5. With the two endpoints of each path at hand, \<^verbatim>\<open>getMatchingPointProperties\<close>
  returns the match for the first of the pairings (0,0), (0,1), (1,0), (1,1), in this
  order, whose points the library's \<^verbatim>\<open>point.areEqualRounded\<close> finds equal, and
  \<^verbatim>\<open>null\<close> when there is none; no other criterion takes part. When there is none,
  \<^verbatim>\<open>fillet\<close> returns \<^verbatim>\<open>null\<close> and the store is as it was.
\<close>

theorem endpoint_matching_first_match:
  assumes "getPointProperties L (heap st path1) = Some props1"
      and "getPointProperties L (heap st path2) = Some props2"
  shows "getMatchingPointProperties L st path1 path2 =
           Inr (map_option (\<lambda>(i1, i2). [makeMatch path1 props1 i1, makeMatch path2 props2 i2])
                  (find (\<lambda>(i1, i2). point_areEqualRounded L (point (props1 ! i1)) (point (props2 ! i2)))
                     [(0, 0), (0, 1), (1, 0), (1, 1)])) \<and>
         (find (\<lambda>(i1, i2). point_areEqualRounded L (point (props1 ! i1)) (point (props2 ! i2)))
            [(0, 0), (0, 1), (1, 0), (1, 1)] = None \<longrightarrow>
          fillet L (Some path1) (Some path2) filletRadius st = (Inr None, st))"
  using assms
  by (simp add: getMatchingPointProperties_def check_def orElse_def fillet_def)

theorem endpoint_matching_first_match_witness:
  "getMatchingPointProperties geometry (twoPaths (Line (0, 0) (1, 0)) (Line (1, 0) (0, 0))) 0 1 =
     Inr (Some [\<lparr>point = (0, 0), propertyName = ''origin'', path = 0, isStart = True,
                 shardPoint = None\<rparr>,
                \<lparr>point = (0, 0), propertyName = ''end'', path = 1, isStart = False,
                 shardPoint = None\<rparr>]) \<and>
   fillet geometry (Some 0) (Some 1) 1 (twoPaths (Line (0, 0) (1, 0)) (Line (5, 5) (6, 5))) =
     (Inr None, twoPaths (Line (0, 0) (1, 0)) (Line (5, 5) (6, 5)))"
proof -
  have p:
    "getPointProperties geometry (heap (twoPaths (Line (0, 0) (1, 0)) (Line (1, 0) (0, 0))) 0) =
       Some [\<lparr>point = (0, 0), propertyName = ''origin''\<rparr>,
             \<lparr>point = (1, 0), propertyName = ''end''\<rparr>]"
    "getPointProperties geometry (heap (twoPaths (Line (0, 0) (1, 0)) (Line (1, 0) (0, 0))) 1) =
       Some [\<lparr>point = (1, 0), propertyName = ''origin''\<rparr>,
             \<lparr>point = (0, 0), propertyName = ''end''\<rparr>]"
    by (simp_all add: getPointProperties_def twoPaths_def)
  have q:
    "getPointProperties geometry (heap (twoPaths (Line (0, 0) (1, 0)) (Line (5, 5) (6, 5))) 0) =
       Some [\<lparr>point = (0, 0), propertyName = ''origin''\<rparr>,
             \<lparr>point = (1, 0), propertyName = ''end''\<rparr>]"
    "getPointProperties geometry (heap (twoPaths (Line (0, 0) (1, 0)) (Line (5, 5) (6, 5))) 1) =
       Some [\<lparr>point = (5, 5), propertyName = ''origin''\<rparr>,
             \<lparr>point = (6, 5), propertyName = ''end''\<rparr>]"
    by (simp_all add: getPointProperties_def twoPaths_def)
  show ?thesis
    using endpoint_matching_first_match [OF p, of 1] endpoint_matching_first_match [OF q, of 1]
    by (simp add: geometry_def areEqualRounded_def roundTo7_def makeMatch_def)
qed

text \<open>
  C6. For a context whose path is an arc: the copy of the arc is broken at the context's
  own shard point, the start half is kept when \<^verbatim>\<open>isStart\<close> holds and the end half
  otherwise, and when there is such a half the guide is an arc with the center, the start
  angle and the end angle of the original arc and the radius \<^verbatim>\<open>arc.radius - filletRadius\<close>
  when the kept half is concave towards \<^verbatim>\<open>nearPoint\<close>, \<^verbatim>\<open>arc.radius + filletRadius\<close>
  otherwise. In \<^verbatim>\<open>fillet\<close>, \<^verbatim>\<open>nearPoint\<close> is the shard point of the other side.
\<close>

theorem arc_guide_path:
  assumes "heap st (path context) = Arc og radius startAngle endAngle"
      and "breakAtPoint L (Arc og radius startAngle endAngle) (shardPoint context) =
             (startHalf, endHalf)"
      and "(if isStart context then Some startHalf else endHalf) = Some keptHalf"
  shows "getGuidePath L st context filletRadius nearPoint =
           Some (Arc og
                  (if measure_isArcConcaveTowardsPoint L keptHalf nearPoint
                   then radius - filletRadius else radius + filletRadius)
                  startAngle endAngle) \<and>
         guideLoop L st commonProperty filletRadius 0 [] =
           [getGuidePath L st (commonProperty ! 0) filletRadius (shardPoint (commonProperty ! 1)),
            getGuidePath L st (commonProperty ! 1) filletRadius (shardPoint (commonProperty ! 0))]"
  using assms
  by (auto simp: getGuidePath_def cloneAndBreakPath_def guideLoop_unroll split: if_splits)

theorem arc_guide_path_witness:
  "getGuidePath geometry (twoPaths (Arc (0, 0) 5 (- 90) 180) (Line (0, - 5) (0, - 25)))
     \<lparr>point = (0, - 5), propertyName = ''startAngle'', path = 0, isStart = True,
      shardPoint = Some (0, 5)\<rparr> 10 (Some (0, - 15)) = Some (Arc (0, 0) 15 (- 90) 180) \<and>
   getGuidePath geometry (twoPaths (Arc (0, 0) 5 (- 90) 180) (Line (0, - 5) (0, - 25)))
     \<lparr>point = (0, - 5), propertyName = ''startAngle'', path = 0, isStart = True,
      shardPoint = Some (0, 5)\<rparr> 1 (Some (0, - 4)) = Some (Arc (0, 0) 4 (- 90) 180)"
proof -
  let ?st = "twoPaths (Arc (0, 0) 5 (- 90) 180) (Line (0, - 5) (0, - 25))"
  let ?cx = "\<lparr>point = (0, - 5), propertyName = ''startAngle'', path = 0, isStart = True,
      shardPoint = Some (0::real, 5::real)\<rparr>"
  have h: "heap ?st (path ?cx) = Arc (0, 0) 5 (- 90) 180" by (simp add: twoPaths_def)
  have b: "breakAtPoint geometry (Arc (0, 0) 5 (- 90) 180) (shardPoint ?cx) =
             (Arc (0, 0) 5 (- 90) 90, Some (Arc (0, 0) 5 90 180))"
    by (simp add: geometry_defs sqrt_values)
  have k: "(if isStart ?cx then Some (Arc (0, 0) 5 (- 90) 90) else Some (Arc (0, 0) 5 90 180)) =
             Some (Arc (0, 0) 5 (- 90) 90)" by simp
  have c: "\<not> measure_isArcConcaveTowardsPoint geometry (Arc (0, 0) 5 (- 90) 90) (Some (0, - 15))"
     "measure_isArcConcaveTowardsPoint geometry (Arc (0, 0) 5 (- 90) 90) (Some (0, - 4))"
    by (simp_all add: geometry_defs sqrt_values)
  show ?thesis
    using arc_guide_path [OF h b k, of 10 "Some (0, - 15)"]
      arc_guide_path [OF h b k, of 1 "Some (0, - 4)"] c
    by simp
qed

text \<open>
  C7. Let the matcher have found the common point, the shard loop have set the shard
  points and the guide loop have built the two guides. When the guides do not intersect,
  \<^verbatim>\<open>fillet\<close> returns \<^verbatim>\<open>null\<close> and the store is as it was. When they intersect and
  the call succeeds, the center of the returned arc is one of the intersection points: the
  only one when there is exactly one, and otherwise one that is at least as close to the
  matched common point as every other. Which point is the closest is decided by the
  library's \<^verbatim>\<open>point.closest\<close>, here the candidate at the least distance.
\<close>

theorem fillet_center_choice:
  assumes "point_closest L = closest"
      and "getMatchingPointProperties L st path1 path2 = Inr (Some matched)"
      and "shardLoop L st (Circle (point (matched ! 0)) filletRadius) matched 0 = Some commonProperty"
      and "guideLoop L st commonProperty filletRadius 0 [] = guidePaths"
  shows "(intersection L (guidePaths ! 0) (guidePaths ! 1) = None \<longrightarrow>
            fillet L (Some path1) (Some path2) filletRadius st = (Inr None, st)) \<and>
         (intersection L (guidePaths ! 0) (guidePaths ! 1) = Some x \<and>
          fillet L (Some path1) (Some path2) filletRadius st = (Inr (Some arc), st') \<longrightarrow>
            (case arc of
               Arc center radius sa ea \<Rightarrow>
                 center \<in> set (intersectionPoints x) \<and>
                 (length (intersectionPoints x) = 1 \<longrightarrow> center = hd (intersectionPoints x)) \<and>
                 (\<forall>q\<in>set (intersectionPoints x).
                     pointDistance (point (matched ! 0)) center
                       \<le> pointDistance (point (matched ! 0)) q)
             | _ \<Rightarrow> False))"
proof (intro conjI impI)
  assume "intersection L (guidePaths ! 0) (guidePaths ! 1) = None"
  then show "fillet L (Some path1) (Some path2) filletRadius st = (Inr None, st)"
    using assms(2-4) by (simp add: fillet_def)
next
  assume a: "intersection L (guidePaths ! 0) (guidePaths ! 1) = Some x \<and>
          fillet L (Some path1) (Some path2) filletRadius st = (Inr (Some arc), st')"
  obtain props1 props2 i1 i2 where
    m: "matched = [makeMatch path1 props1 i1, makeMatch path2 props2 i2]"
    using assms(2) by (rule getMatchingPointProperties_Some)
  obtain s1 s2 where cp: "commonProperty =
      [(makeMatch path1 props1 i1)\<lparr>shardPoint := Some s1\<rparr>,
       (makeMatch path2 props2 i2)\<lparr>shardPoint := Some s2\<rparr>]"
    using assms(3) unfolding m by (rule shardLoop_Some)
  have pt: "point (commonProperty ! 0) = point (matched ! 0)" by (simp add: cp m)
  from a obtain r0 r1 st2 where
    c: "commitFillet L (filletCenterOf L commonProperty x) filletRadius [r0, r1] st2 = (Some arc, st')"
    by (elim conjE fillet_success) (use assms(2-4) in auto)
  obtain p ps where x: "x = IPathIntersection p ps" by (cases x)
  have "filletCenterOf L commonProperty x \<in> set (intersectionPoints x)"
    using closest_in [of "intersectionPoints x" "point (commonProperty ! 0)"]
    by (auto simp: filletCenterOf_def assms(1) x)
  moreover have "length (intersectionPoints x) = 1 \<longrightarrow>
      filletCenterOf L commonProperty x = hd (intersectionPoints x)"
    by (simp add: filletCenterOf_def x)
  moreover have "\<forall>q\<in>set (intersectionPoints x).
      pointDistance (point (matched ! 0)) (filletCenterOf L commonProperty x)
         \<le> pointDistance (point (matched ! 0)) q"
    using closest_least [of _ "intersectionPoints x" "point (matched ! 0)"]
    by (auto simp: filletCenterOf_def assms(1) x pt)
  ultimately show "case arc of
       Arc center radius sa ea \<Rightarrow>
         center \<in> set (intersectionPoints x) \<and>
         (length (intersectionPoints x) = 1 \<longrightarrow> center = hd (intersectionPoints x)) \<and>
         (\<forall>q\<in>set (intersectionPoints x).
             pointDistance (point (matched ! 0)) center
               \<le> pointDistance (point (matched ! 0)) q)
     | _ \<Rightarrow> False"
    using commitFillet_Some [OF c] by (auto split: IPath.splits)
qed

theorem fillet_center_choice_witness:
  "fillet geometry (Some 0) (Some 1) 1 straight = (Inr None, straight) \<and>
   fst (fillet geometry (Some 0) (Some 1) 2 corner) = Inr (Some (Arc (8, 2) 2 (- 90) 0)) \<and>
   intersection geometry (Some (Line (0, 2) (10, 2))) (Some (Line (8, 0) (8, 10))) =
     Some (IPathIntersection (8, 2) []) \<and>
   (8, 2) \<in> set (intersectionPoints (IPathIntersection (8, 2) [])) \<and>
   hd (intersectionPoints (IPathIntersection (8, 2) [])) = (8, 2) \<and>
   pointDistance (10, 0) (8, 2) \<le> pointDistance (10, 0) (8, 2) \<and>
   fst (fillet geometry (Some 0) (Some 1) 4 lineAndArc) =
     Inr (Some (Arc (3, 4) 4 (- 90) (toDegrees (arctan (4 / 3))))) \<and>
   intersection geometry (Some (Line (- 6, 4) (9, 4))) (Some (Arc (0, 0) 5 0 180)) =
     Some (IPathIntersection (- 3, 4) [(3, 4)]) \<and>
   intersectionPoints (IPathIntersection (- 3, 4) [(3, 4)]) = [(- 3, 4), (3, 4)] \<and>
   (3, 4) \<in> set (intersectionPoints (IPathIntersection (- 3, 4) [(3, 4)])) \<and>
   hd (intersectionPoints (IPathIntersection (- 3, 4) [(3, 4)])) = (- 3, 4) \<and>
   pointDistance (9, 0) (3, 4) \<le> pointDistance (9, 0) (- 3, 4) \<and>
   pointDistance (9, 0) (3, 4) \<le> pointDistance (9, 0) (3, 4) \<and>
   pointDistance (9, 0) (3, 4) < pointDistance (9, 0) (- 3, 4)"
proof -
  have s: "shardLoop geometry corner
      (Circle (point ([\<lparr>point = (10, 0), propertyName = ''end'', path = 0, isStart = False,
                        shardPoint = None\<rparr>,
                       \<lparr>point = (10, 0), propertyName = ''origin'', path = 1, isStart = True,
                        shardPoint = None\<rparr>] ! 0)) 2)
      [\<lparr>point = (10, 0), propertyName = ''end'', path = 0, isStart = False,
        shardPoint = None\<rparr>,
       \<lparr>point = (10, 0), propertyName = ''origin'', path = 1, isStart = True,
        shardPoint = None\<rparr>] 0 =
    Some [\<lparr>point = (10, 0), propertyName = ''end'', path = 0, isStart = False,
           shardPoint = Some (8, 0)\<rparr>,
          \<lparr>point = (10, 0), propertyName = ''origin'', path = 1, isStart = True,
           shardPoint = Some (10, 2)\<rparr>]"
    using corner_shards by simp
  have t: "shardLoop geometry straight
      (Circle (point ([\<lparr>point = (10, 0), propertyName = ''end'', path = 0, isStart = False,
                        shardPoint = None\<rparr>,
                       \<lparr>point = (10, 0), propertyName = ''origin'', path = 1, isStart = True,
                        shardPoint = None\<rparr>] ! 0)) 1)
      [\<lparr>point = (10, 0), propertyName = ''end'', path = 0, isStart = False,
        shardPoint = None\<rparr>,
       \<lparr>point = (10, 0), propertyName = ''origin'', path = 1, isStart = True,
        shardPoint = None\<rparr>] 0 =
    Some [\<lparr>point = (10, 0), propertyName = ''end'', path = 0, isStart = False,
           shardPoint = Some (9, 0)\<rparr>,
          \<lparr>point = (10, 0), propertyName = ''origin'', path = 1, isStart = True,
           shardPoint = Some (11, 0)\<rparr>]"
    using straight_shards by simp
  have u: "shardLoop geometry lineAndArc
      (Circle (point ([\<lparr>point = (9, 0), propertyName = ''end'', path = 0, isStart = False,
                        shardPoint = None\<rparr>,
                       \<lparr>point = (9, 0), propertyName = ''startAngle'', path = 1,
                        isStart = True, shardPoint = None\<rparr>] ! 0)) 4)
      [\<lparr>point = (9, 0), propertyName = ''end'', path = 0, isStart = False,
        shardPoint = None\<rparr>,
       \<lparr>point = (9, 0), propertyName = ''startAngle'', path = 1, isStart = True,
        shardPoint = None\<rparr>] 0 =
    Some [\<lparr>point = (9, 0), propertyName = ''end'', path = 0, isStart = False,
           shardPoint = Some (5, 0)\<rparr>,
          \<lparr>point = (9, 0), propertyName = ''startAngle'', path = 1, isStart = True,
           shardPoint = Some (73 / 9, sqrt (1232 / 81))\<rparr>]"
    using lineAndArc_shards by simp
  have g: "[Some (Line (0, 2) (10, 2)), Some (Line (8, 0) (8, 10))] ! 0 = Some (Line (0, 2) (10, 2))"
    "[Some (Line (0, 2) (10, 2)), Some (Line (8, 0) (8, 10))] ! 1 = Some (Line (8, 0) (8, 10))"
    "[Some (Line (0, - 1) (10, - 1)), Some (Line (10, - 1) (20, - 1))] ! 0 =
       Some (Line (0, - 1) (10, - 1))"
    "[Some (Line (0, - 1) (10, - 1)), Some (Line (10, - 1) (20, - 1))] ! 1 =
       Some (Line (10, - 1) (20, - 1))"
    "[Some (Line (- 6, 4) (9, 4)), Some (Arc (0, 0) 5 0 180)] ! 0 = Some (Line (- 6, 4) (9, 4))"
    "[Some (Line (- 6, 4) (9, 4)), Some (Arc (0, 0) 5 0 180)] ! 1 = Some (Arc (0, 0) 5 0 180)"
    by simp_all
  have chosen:
    "fillet geometry (Some 0) (Some 1) 1 straight = (Inr None, straight) \<and>
     fst (fillet geometry (Some 0) (Some 1) 2 corner) = Inr (Some (Arc (8, 2) 2 (- 90) 0)) \<and>
     intersection geometry (Some (Line (0, 2) (10, 2))) (Some (Line (8, 0) (8, 10))) =
       Some (IPathIntersection (8, 2) []) \<and>
     (8, 2) \<in> set (intersectionPoints (IPathIntersection (8, 2) [])) \<and>
     hd (intersectionPoints (IPathIntersection (8, 2) [])) = (8, 2) \<and>
     pointDistance (10, 0) (8, 2) \<le> pointDistance (10, 0) (8, 2) \<and>
     fst (fillet geometry (Some 0) (Some 1) 4 lineAndArc) =
       Inr (Some (Arc (3, 4) 4 (- 90) (toDegrees (arctan (4 / 3))))) \<and>
     intersection geometry (Some (Line (- 6, 4) (9, 4))) (Some (Arc (0, 0) 5 0 180)) =
       Some (IPathIntersection (- 3, 4) [(3, 4)]) \<and>
     intersectionPoints (IPathIntersection (- 3, 4) [(3, 4)]) = [(- 3, 4), (3, 4)] \<and>
     (3, 4) \<in> set (intersectionPoints (IPathIntersection (- 3, 4) [(3, 4)])) \<and>
     hd (intersectionPoints (IPathIntersection (- 3, 4) [(3, 4)])) = (- 3, 4) \<and>
     pointDistance (9, 0) (3, 4) \<le> pointDistance (9, 0) (- 3, 4) \<and>
     pointDistance (9, 0) (3, 4) \<le> pointDistance (9, 0) (3, 4)"
    using
      fillet_center_choice [OF geometry_fields(2) corner_matched s corner_guides,
        of "IPathIntersection (8, 2) []" "Arc (8, 2) 2 (- 90) 0"
           "snd (fillet geometry (Some 0) (Some 1) 2 corner)"]
      fillet_center_choice [OF geometry_fields(2) straight_matched t straight_guides]
      fillet_center_choice [OF geometry_fields(2) lineAndArc_matched u lineAndArc_guides,
        of "IPathIntersection (- 3, 4) [(3, 4)]"
           "Arc (3, 4) 4 (- 90) (toDegrees (arctan (4 / 3)))"
           "snd (fillet geometry (Some 0) (Some 1) 4 lineAndArc)"]
      straight_radius_1
    unfolding g corner_guides_meet straight_guides_apart corner_radius_2
      lineAndArc_guides_meet lineAndArc_radius_4
    by simp
  have "pointDistance (9, 0) (3, 4) < pointDistance (9, 0) (- 3, 4)"
    by (simp add: pointDistance_def)
  with chosen show ?thesis by blast
qed

text \<open>
  C8. When the path of a side, with the deferred mutation of that side applied, has
  length zero, \<^verbatim>\<open>getFilletResult\<close> returns \<^verbatim>\<open>null\<close> for this side and leaves the
  path as it was; a side without a result makes the loop over the two sides, and so
  \<^verbatim>\<open>fillet\<close>, end without a result. So after a successful call neither input path has
  length zero. The lengths are what the library's \<^verbatim>\<open>measure.pathLength\<close> gives. The
  last part is stated for two different path objects, and for one object passed twice when
  the library's rounded equality finds every point equal to itself.
\<close>

theorem fillet_never_eliminates_a_path:
  "(filletResultOf L st context filletRadius filletCenter = Some result \<and>
    measure_pathLength L (heap (clipPath result st) (path context)) = 0 \<longrightarrow>
      fst (getFilletResult L context filletRadius filletCenter st) = None \<and>
      heap (snd (getFilletResult L context filletRadius filletCenter st)) = heap st) \<and>
   (fst (getFilletResult L (commonProperty ! 0) filletRadius filletCenter st) = None \<or>
    fst (getFilletResult L (commonProperty ! 1) filletRadius filletCenter st) = None \<longrightarrow>
      fst (resultLoop L commonProperty filletRadius filletCenter 0 [] st) = None) \<and>
   (fillet L (Some path1) (Some path2) filletRadius st = (Inr (Some arc), st') \<and>
    (path1 \<noteq> path2 \<or> (\<forall>q. point_areEqualRounded L q q)) \<longrightarrow>
      measure_pathLength L (heap st' path1) \<noteq> 0 \<and> measure_pathLength L (heap st' path2) \<noteq> 0)"
proof -
  have validation: "fst (getFilletResult L context filletRadius filletCenter st) = None"
    if "filletResultOf L st context filletRadius filletCenter = Some result"
      and "measure_pathLength L (heap (clipPath result st) (path context)) = 0"
    using that by (simp add: getFilletResult_def Let_def)
  have reverted: "heap (snd (getFilletResult L context filletRadius filletCenter st)) = heap st"
    by (rule getFilletResult_heap
          [where res = "fst (getFilletResult L context filletRadius filletCenter st)"]) simp
  have rejected: "fst (resultLoop L commonProperty filletRadius filletCenter 0 [] st) = None"
    if a: "fst (getFilletResult L (commonProperty ! 0) filletRadius filletCenter st) = None \<or>
           fst (getFilletResult L (commonProperty ! 1) filletRadius filletCenter st) = None"
  proof -
    obtain x0 st1 where
      g0: "getFilletResult L (commonProperty ! 0) filletRadius filletCenter st = (x0, st1)"
      by (cases "getFilletResult L (commonProperty ! 0) filletRadius filletCenter st")
    have h: "heap st1 = heap st" using g0 by (rule getFilletResult_heap)
    show ?thesis
      using a g0
        getFilletResult_fst_heap [OF h, of L "commonProperty ! 1" filletRadius filletCenter]
      by (auto simp: resultLoop_unroll split: option.splits prod.splits)
  qed
  have kept: "measure_pathLength L (heap st' path1) \<noteq> 0 \<and>
              measure_pathLength L (heap st' path2) \<noteq> 0"
    if f: "fillet L (Some path1) (Some path2) filletRadius st = (Inr (Some arc), st')"
      and d: "path1 \<noteq> path2 \<or> (\<forall>q. point_areEqualRounded L q q)"
  proof -
    from f obtain props1 props2 i1 i2 v1 v2 where
      p: "getPointProperties L (heap st path1) = Some props1"
         "getPointProperties L (heap st path2) = Some props2"
      and z: "(i1, i2) \<noteq> (0, 0) \<Longrightarrow>
                \<not> point_areEqualRounded L (point (props1 ! 0)) (point (props2 ! 0))"
      and fit: "fitsPath (heap st path1) v1" "fitsPath (heap st path2) v2"
      and len:
        "measure_pathLength L
           (setProperty (heap st path1) (propertyName (props1 ! i1)) (Some v1)) \<noteq> 0"
        "measure_pathLength L
           (setProperty (heap st path2) (propertyName (props2 ! i2)) (Some v2)) \<noteq> 0"
      and hp: "heap st' = (heap st)
         (path1 := setProperty (heap st path1) (propertyName (props1 ! i1)) (Some v1),
          path2 := setProperty
                     (((heap st)(path1 := setProperty (heap st path1)
                                            (propertyName (props1 ! i1)) (Some v1))) path2)
                     (propertyName (props2 ! i2)) (Some v2))"
      by (rule fillet_success_store) blast
    show ?thesis
    proof (cases "path1 = path2")
      case False
      with len hp show ?thesis by simp
    next
      case True
      with p have e: "props2 = props1" by simp
      from True d have
        rf: "point_areEqualRounded L (point (props1 ! 0)) (point (props1 ! 0))"
        by blast
      have "(i1, i2) = (0, 0)"
      proof (rule ccontr)
        assume "(i1, i2) \<noteq> (0, 0)"
        from z [OF this] rf e show False by simp
      qed
      with True e len fit hp show ?thesis by (simp add: setProperty_twice)
    qed
  qed
  from validation reverted rejected kept show ?thesis by blast
qed

theorem fillet_never_eliminates_a_path_witness:
  "fst (getFilletResult geometry
          \<lparr>point = (10, 0), propertyName = ''end'', path = 0, isStart = False,
           shardPoint = Some (0, 0)\<rparr> 10 (0, 10) corner) = None \<and>
   heap (snd (getFilletResult geometry
          \<lparr>point = (10, 0), propertyName = ''end'', path = 0, isStart = False,
           shardPoint = Some (0, 0)\<rparr> 10 (0, 10) corner)) = heap corner \<and>
   fst (resultLoop geometry
          [\<lparr>point = (10, 0), propertyName = ''end'', path = 0, isStart = False,
            shardPoint = Some (0, 0)\<rparr>,
           \<lparr>point = (10, 0), propertyName = ''origin'', path = 1, isStart = True,
            shardPoint = Some (10, 10)\<rparr>] 10 (0, 10) 0 [] corner) = None \<and>
   measure_pathLength geometry (heap (snd (fillet geometry (Some 0) (Some 1) 2 corner)) 0) \<noteq> 0 \<and>
   measure_pathLength geometry (heap (snd (fillet geometry (Some 0) (Some 1) 2 corner)) 1) \<noteq> 0"
proof -
  let ?c0 = "\<lparr>point = (10::real, 0::real), propertyName = ''end'', path = 0::nat,
              isStart = False, shardPoint = Some (0::real, 0::real)\<rparr>"
  let ?c1 = "\<lparr>point = (10::real, 0::real), propertyName = ''origin'', path = 1::nat,
              isStart = True, shardPoint = Some (10::real, 10::real)\<rparr>"
  let ?res = "\<lparr>filletAngle = - 90, clipPath = writeProperty 0 ''end'' (Some (VPoint (0, 0)))\<rparr>"
  have z: "measure_pathLength geometry (heap (clipPath ?res corner) (path ?c0)) = 0"
    by (simp add: writeProperty_def geometry_defs corner_def)
  have n: "[?c0, ?c1] ! 0 = ?c0" by simp
  have f: "fillet geometry (Some 0) (Some 1) 2 corner =
      (Inr (Some (Arc (8, 2) 2 (- 90) 0)), snd (fillet geometry (Some 0) (Some 1) 2 corner))"
    unfolding corner_radius_2 by simp
  have d: "(0::nat) \<noteq> 1 \<or> (\<forall>q. point_areEqualRounded geometry q q)" by simp
  from fillet_never_eliminates_a_path [of geometry corner ?c0 10 "(0, 10)" ?res "[?c0, ?c1]"]
    corner_radius_10_outcome z
  have "fst (getFilletResult geometry ?c0 10 (0, 10) corner) = None \<and>
        heap (snd (getFilletResult geometry ?c0 10 (0, 10) corner)) = heap corner \<and>
        fst (resultLoop geometry [?c0, ?c1] 10 (0, 10) 0 [] corner) = None"
    unfolding n by blast
  moreover
  from fillet_never_eliminates_a_path [of geometry corner ?c0 2 "(0, 10)" ?res "[?c0, ?c1]"
      0 1 "Arc (8, 2) 2 (- 90) 0" "snd (fillet geometry (Some 0) (Some 1) 2 corner)"] f d
  have "measure_pathLength geometry
          (heap (snd (fillet geometry (Some 0) (Some 1) 2 corner)) 0) \<noteq> 0 \<and>
        measure_pathLength geometry
          (heap (snd (fillet geometry (Some 0) (Some 1) 2 corner)) 1) \<noteq> 0"
    by blast
  ultimately show ?thesis by blast
qed

text \<open>
  C9. Every write of a call of \<^verbatim>\<open>fillet\<close> assigns an endpoint field of one of the two
  input paths: \<^verbatim>\<open>origin\<close> or \<^verbatim>\<open>end\<close> of a line, \<^verbatim>\<open>startAngle\<close> or
  \<^verbatim>\<open>endAngle\<close> of an arc. No other path of the store changes. A call that does not
  return an arc leaves all paths as they were. In a call that returns an arc, the fields
  written are exactly the two endpoint fields that the matcher has named, one of each
  path, and afterwards each input path has its type and all its fields as before, except
  for that endpoint field. That part is stated for two different path objects, and for
  one object passed twice when the library's rounded equality finds every point equal to
  itself. The matched fields are overwritten for good: the paths after the call are the
  paths before it with the deferred mutation of the first side and then that of the second
  side applied, where the two sides are the outcomes that \<^verbatim>\<open>getFilletResult\<close> gave for
  the two matched endpoints at the fillet center. So the matched field of the second path
  holds the value that the second mutation assigns, and the matched field of the first
  path the value that the first mutation assigns, unless both mutations assign the same
  field of the same object.
\<close>

theorem fillet_writes_endpoints_only:
  assumes "fillet L (Some path1) (Some path2) filletRadius st = (res, st')"
  shows "(\<exists>ws. writes st' = writes st @ ws \<and>
               (\<forall>(a, n)\<in>set ws. (a = path1 \<or> a = path2) \<and> endpointField (heap st a) n)) \<and>
         (\<forall>a. a \<noteq> path1 \<and> a \<noteq> path2 \<longrightarrow> heap st' a = heap st a) \<and>
         ((\<forall>arc. res \<noteq> Inr (Some arc)) \<longrightarrow> heap st' = heap st) \<and>
         ((\<exists>arc. res = Inr (Some arc)) \<longrightarrow>
            (\<exists>matched.
               getMatchingPointProperties L st path1 path2 = Inr (Some matched) \<and>
               endpointField (heap st path1) (propertyName (matched ! 0)) \<and>
               endpointField (heap st path2) (propertyName (matched ! 1)) \<and>
               set (drop (length (writes st)) (writes st')) =
                 {(path1, propertyName (matched ! 0)), (path2, propertyName (matched ! 1))} \<and>
               (path1 \<noteq> path2 \<or> (\<forall>q. point_areEqualRounded L q q) \<longrightarrow>
                  sameExceptField (heap st path1) (propertyName (matched ! 0)) (heap st' path1) \<and>
                  sameExceptField (heap st path2) (propertyName (matched ! 1)) (heap st' path2)) \<and>
               (\<exists>commonProperty x r0 r1 st1 st2 v1 v2.
                  shardLoop L st (Circle (point (matched ! 0)) filletRadius) matched 0 =
                    Some commonProperty \<and>
                  intersection L (guideLoop L st commonProperty filletRadius 0 [] ! 0)
                    (guideLoop L st commonProperty filletRadius 0 [] ! 1) = Some x \<and>
                  getFilletResult L (commonProperty ! 0) filletRadius
                    (filletCenterOf L commonProperty x) st = (Some r0, st1) \<and>
                  getFilletResult L (commonProperty ! 1) filletRadius
                    (filletCenterOf L commonProperty x) st1 = (Some r1, st2) \<and>
                  clipPath r0 = writeProperty path1 (propertyName (matched ! 0)) (Some v1) \<and>
                  clipPath r1 = writeProperty path2 (propertyName (matched ! 1)) (Some v2) \<and>
                  fitsPath (heap st path1) v1 \<and> fitsPath (heap st path2) v2 \<and>
                  heap st' = heap (clipPath r1 (clipPath r0 st)) \<and>
                  getProperty (heap st' path2) (propertyName (matched ! 1)) = Some v2 \<and>
                  (path1 \<noteq> path2 \<or> propertyName (matched ! 0) \<noteq> propertyName (matched ! 1) \<longrightarrow>
                     getProperty (heap st' path1) (propertyName (matched ! 0)) = Some v1))))"
    (is "_ \<and> _ \<and> _ \<and> (_ \<longrightarrow> ?committed)")
proof -
  have failure: "heap st' = heap st" if "\<forall>arc. res \<noteq> Inr (Some arc)"
    using assms that by (rule fillet_not_success_heap)
  have success: ?committed
    and others: "\<forall>a. a \<noteq> path1 \<and> a \<noteq> path2 \<longrightarrow> heap st' a = heap st a"
    if r: "res = Inr (Some arc)" for arc
  proof -
    from assms [unfolded r] obtain props1 props2 i1 i2 w1 w2 where
      p: "getPointProperties L (heap st path1) = Some props1"
         "getPointProperties L (heap st path2) = Some props2"
         "i1 < 2" "i2 < 2"
      and m: "getMatchingPointProperties L st path1 path2 =
                Inr (Some [makeMatch path1 props1 i1, makeMatch path2 props2 i2])"
      and z: "(i1, i2) \<noteq> (0, 0) \<Longrightarrow>
                \<not> point_areEqualRounded L (point (props1 ! 0)) (point (props2 ! 0))"
      and hp: "heap st' = (heap st)
         (path1 := setProperty (heap st path1) (propertyName (props1 ! i1)) (Some w1),
          path2 := setProperty
                     (((heap st)(path1 := setProperty (heap st path1)
                                            (propertyName (props1 ! i1)) (Some w1))) path2)
                     (propertyName (props2 ! i2)) (Some w2))"
      and wr: "writes st' = writes st @
         [(path1, propertyName (props1 ! i1)), (path1, propertyName (props1 ! i1)),
          (path2, propertyName (props2 ! i2)), (path2, propertyName (props2 ! i2)),
          (path1, propertyName (props1 ! i1)), (path2, propertyName (props2 ! i2))]"
      by (rule fillet_success_store) blast
    from hp show "\<forall>a. a \<noteq> path1 \<and> a \<noteq> path2 \<longrightarrow> heap st' a = heap st a" by simp
    define n1 where "n1 = propertyName (props1 ! i1)"
    define n2 where "n2 = propertyName (props2 ! i2)"
    have e: "endpointField (heap st path1) n1" "endpointField (heap st path2) n2"
      using getPointProperties_names [OF p(1) p(3)] getPointProperties_names [OF p(2) p(4)]
      by (simp_all add: n1_def n2_def)
    have same: "sameExceptField (heap st path1) n1 (heap st' path1) \<and>
                sameExceptField (heap st path2) n2 (heap st' path2)"
      if d: "path1 \<noteq> path2 \<or> (\<forall>q. point_areEqualRounded L q q)"
    proof (cases "path1 = path2")
      case False
      with e hp show ?thesis by (simp add: sameExceptField_setProperty n1_def n2_def)
    next
      case True
      with p have eq: "props2 = props1" by simp
      from True d have
        rf: "point_areEqualRounded L (point (props1 ! 0)) (point (props1 ! 0))"
        by blast
      have "(i1, i2) = (0, 0)"
      proof (rule ccontr)
        assume "(i1, i2) \<noteq> (0, 0)"
        from z [OF this] rf eq show False by simp
      qed
      with True eq e hp show ?thesis by (simp add: sameExceptField_setProperty2 n1_def n2_def)
    qed
    from assms [unfolded r] obtain matched cp x r0 r1 st1 st2 v1 v2 where
      c: "getMatchingPointProperties L st path1 path2 = Inr (Some matched)"
         "shardLoop L st (Circle (point (matched ! 0)) filletRadius) matched 0 = Some cp"
         "intersection L (guideLoop L st cp filletRadius 0 [] ! 0)
            (guideLoop L st cp filletRadius 0 [] ! 1) = Some x"
         "getFilletResult L (cp ! 0) filletRadius (filletCenterOf L cp x) st = (Some r0, st1)"
         "getFilletResult L (cp ! 1) filletRadius (filletCenterOf L cp x) st1 = (Some r1, st2)"
         "clipPath r0 = writeProperty path1 (propertyName (matched ! 0)) (Some v1)"
         "clipPath r1 = writeProperty path2 (propertyName (matched ! 1)) (Some v2)"
         "fitsPath (heap st path1) v1" "fitsPath (heap st path2) v2"
         "heap st' = heap (clipPath r1 (clipPath r0 st))"
      by (rule fillet_success_commit)
    from c(1) m have mt: "matched = [makeMatch path1 props1 i1, makeMatch path2 props2 i2]"
      by simp
    have nm: "propertyName (matched ! 0) = n1" "propertyName (matched ! 1) = n2"
      by (simp_all add: mt n1_def n2_def)
    have hc: "heap st' = (heap st)
         (path1 := setProperty (heap st path1) n1 (Some v1),
          path2 := setProperty
                     (((heap st)(path1 := setProperty (heap st path1) n1 (Some v1))) path2)
                     n2 (Some v2))"
      unfolding c(10) c(6) c(7) nm by (simp add: writeProperty_def)
    have f2: "getProperty (heap st' path2) n2 = Some v2"
      using e c(8,9)
      by (auto simp: hc getProperty_setProperty endpointField_setProperty fitsPath_setProperty)
    have f1: "getProperty (heap st' path1) n1 = Some v1" if "path1 \<noteq> path2 \<or> n1 \<noteq> n2"
      using e c(8,9) that
      by (auto simp: hc getProperty_setProperty getProperty_setProperty_other)
    show ?committed
    proof (rule exI [of _ matched], unfold nm, intro conjI)
      show "getMatchingPointProperties L st path1 path2 = Inr (Some matched)" by (rule c(1))
      show "endpointField (heap st path1) n1" "endpointField (heap st path2) n2" by (rule e)+
      show "set (drop (length (writes st)) (writes st')) = {(path1, n1), (path2, n2)}"
        using wr by (auto simp: n1_def n2_def)
      show "path1 \<noteq> path2 \<or> (\<forall>q. point_areEqualRounded L q q) \<longrightarrow>
              sameExceptField (heap st path1) n1 (heap st' path1) \<and>
              sameExceptField (heap st path2) n2 (heap st' path2)"
        using same by blast
      show "\<exists>commonProperty x r0 r1 st1 st2 v1 v2.
         shardLoop L st (Circle (point (matched ! 0)) filletRadius) matched 0 =
           Some commonProperty \<and>
         intersection L (guideLoop L st commonProperty filletRadius 0 [] ! 0)
           (guideLoop L st commonProperty filletRadius 0 [] ! 1) = Some x \<and>
         getFilletResult L (commonProperty ! 0) filletRadius
           (filletCenterOf L commonProperty x) st = (Some r0, st1) \<and>
         getFilletResult L (commonProperty ! 1) filletRadius
           (filletCenterOf L commonProperty x) st1 = (Some r1, st2) \<and>
         clipPath r0 = writeProperty path1 n1 (Some v1) \<and>
         clipPath r1 = writeProperty path2 n2 (Some v2) \<and>
         fitsPath (heap st path1) v1 \<and> fitsPath (heap st path2) v2 \<and>
         heap st' = heap (clipPath r1 (clipPath r0 st)) \<and>
         getProperty (heap st' path2) n2 = Some v2 \<and>
         (path1 \<noteq> path2 \<or> n1 \<noteq> n2 \<longrightarrow> getProperty (heap st' path1) n1 = Some v1)"
        using c(2-10) [unfolded nm] f1 f2 by blast
    qed
  qed
  have frame: "\<forall>a. a \<noteq> path1 \<and> a \<noteq> path2 \<longrightarrow> heap st' a = heap st a"
  proof (cases "\<exists>arc. res = Inr (Some arc)")
    case True
    then obtain arc where "res = Inr (Some arc)" ..
    then show ?thesis by (rule others)
  next
    case False
    with failure show ?thesis by simp
  qed
  have committed: "(\<exists>arc. res = Inr (Some arc)) \<longrightarrow> ?committed"
  proof
    assume "\<exists>arc. res = Inr (Some arc)"
    then obtain arc where "res = Inr (Some arc)" ..
    then show ?committed by (rule success)
  qed
  from fillet_writes [OF assms] frame failure committed show ?thesis by blast
qed

theorem fillet_writes_endpoints_only_witness:
  "set (drop (length (writes corner)) (writes (snd (fillet geometry (Some 0) (Some 1) 2 corner)))) =
     {(0, ''end''), (1, ''origin'')} \<and>
   endpointField (heap corner 0) ''end'' \<and> endpointField (heap corner 1) ''origin'' \<and>
   heap (snd (fillet geometry (Some 0) (Some 1) 2 corner)) 2 = heap corner 2 \<and>
   sameExceptField (heap corner 0) ''end''
     (heap (snd (fillet geometry (Some 0) (Some 1) 2 corner)) 0) \<and>
   sameExceptField (heap corner 1) ''origin''
     (heap (snd (fillet geometry (Some 0) (Some 1) 2 corner)) 1) \<and>
   heap (snd (fillet geometry (Some 0) (Some 1) 2 corner)) =
     heap (writeProperty 1 ''origin'' (Some (VPoint (10, 2)))
            (writeProperty 0 ''end'' (Some (VPoint (8, 0))) corner)) \<and>
   getProperty (heap corner 0) ''end'' = Some (VPoint (10, 0)) \<and>
   getProperty (heap corner 1) ''origin'' = Some (VPoint (10, 0)) \<and>
   getProperty (heap (snd (fillet geometry (Some 0) (Some 1) 2 corner)) 0) ''end'' =
     Some (VPoint (8, 0)) \<and>
   getProperty (heap (snd (fillet geometry (Some 0) (Some 1) 2 corner)) 1) ''origin'' =
     Some (VPoint (10, 2)) \<and>
   heap (snd (fillet geometry (Some 0) (Some 1) 10 corner)) = heap corner"
proof -
  let ?st' = "snd (fillet geometry (Some 0) (Some 1) 2 corner)"
  let ?m0 = "\<lparr>point = (10, 0), propertyName = ''end'', path = 0, isStart = False,
              shardPoint = None\<rparr>"
  let ?m1 = "\<lparr>point = (10, 0), propertyName = ''origin'', path = 1, isStart = True,
              shardPoint = None\<rparr>"
  let ?c0 = "\<lparr>point = (10, 0), propertyName = ''end'', path = 0, isStart = False,
              shardPoint = Some (8, 0)\<rparr>"
  let ?c1 = "\<lparr>point = (10, 0), propertyName = ''origin'', path = 1, isStart = True,
              shardPoint = Some (10, 2)\<rparr>"
  have f: "fillet geometry (Some 0) (Some 1) 2 corner = (Inr (Some (Arc (8, 2) 2 (- 90) 0)), ?st')"
    unfolding corner_radius_2 by simp
  have ne: "(0 :: nat) \<noteq> 1" by simp
  have nth: "[a, b] ! 0 = a" "[a, b] ! 1 = b" for a b :: 'a by simp_all
  note t = fillet_writes_endpoints_only [OF f]
  from t [THEN conjunct2, THEN conjunct1] have frame: "heap ?st' 2 = heap corner 2" by simp
  have "\<exists>arc. (Inr (Some (Arc (8, 2) 2 (- 90) 0)) :: error + IPath option) = Inr (Some arc)"
    by blast
  note s = t [THEN conjunct2, THEN conjunct2, THEN conjunct2, THEN mp, OF this]
  from s obtain matched cp x r0 r1 st1 st2 where
    m: "getMatchingPointProperties geometry corner 0 1 = Inr (Some matched)" and
    e: "endpointField (heap corner 0) (propertyName (matched ! 0))"
       "endpointField (heap corner 1) (propertyName (matched ! 1))" and
    w: "set (drop (length (writes corner)) (writes ?st')) =
          {(0, propertyName (matched ! 0)), (1, propertyName (matched ! 1))}" and
    imp: "(0 :: nat) \<noteq> 1 \<or> (\<forall>q. point_areEqualRounded geometry q q) \<longrightarrow>
          sameExceptField (heap corner 0) (propertyName (matched ! 0)) (heap ?st' 0) \<and>
          sameExceptField (heap corner 1) (propertyName (matched ! 1)) (heap ?st' 1)" and
    sh: "shardLoop geometry corner (Circle (point (matched ! 0)) 2) matched 0 = Some cp" and
    i: "intersection geometry (guideLoop geometry corner cp 2 0 [] ! 0)
          (guideLoop geometry corner cp 2 0 [] ! 1) = Some x" and
    g0: "getFilletResult geometry (cp ! 0) 2 (filletCenterOf geometry cp x) corner = (Some r0, st1)" and
    g1: "getFilletResult geometry (cp ! 1) 2 (filletCenterOf geometry cp x) st1 = (Some r1, st2)" and
    h: "heap ?st' = heap (clipPath r1 (clipPath r0 corner))"
    by (elim exE conjE) (rule that; assumption)
  from imp ne have
    same: "sameExceptField (heap corner 0) (propertyName (matched ! 0)) (heap ?st' 0)"
          "sameExceptField (heap corner 1) (propertyName (matched ! 1)) (heap ?st' 1)"
    by blast+
  have mt: "matched = [?m0, ?m1]" using m unfolding corner_matched by simp
  have names: "propertyName (matched ! 0) = ''end''" "propertyName (matched ! 1) = ''origin''"
    unfolding mt nth by simp_all
  have p0: "point (matched ! 0) = (10, 0)" unfolding mt nth by simp
  have cpe: "cp = [?c0, ?c1]" using sh unfolding p0 unfolding mt corner_shards by simp
  have xe: "x = IPathIntersection (8, 2) []"
    using i unfolding cpe corner_guides nth corner_guides_meet by simp
  have r0e: "r0 = \<lparr>filletAngle = - 90, clipPath = writeProperty 0 ''end'' (Some (VPoint (8, 0)))\<rparr>"
    and st1e: "st1 = corner\<lparr>writes := [(0, ''end''), (0, ''end'')]\<rparr>"
    using g0 unfolding cpe xe corner_center nth corner_outcome_0 by simp_all
  have r1e: "r1 = \<lparr>filletAngle = 0, clipPath = writeProperty 1 ''origin'' (Some (VPoint (10, 2)))\<rparr>"
    using g1 unfolding cpe xe corner_center nth st1e corner_outcome_1 by simp
  have hh: "heap ?st' = heap (writeProperty 1 ''origin'' (Some (VPoint (10, 2)))
            (writeProperty 0 ''end'' (Some (VPoint (8, 0))) corner))"
    unfolding h r0e r1e by simp
  have old: "getProperty (heap corner 0) ''end'' = Some (VPoint (10, 0))"
    "getProperty (heap corner 1) ''origin'' = Some (VPoint (10, 0))"
    by (simp_all add: corner_def twoPaths_def)
  have new: "getProperty (heap ?st' 0) ''end'' = Some (VPoint (8, 0))"
    "getProperty (heap ?st' 1) ''origin'' = Some (VPoint (10, 2))"
    unfolding hh by (simp_all add: writeProperty_def corner_def twoPaths_def)
  have "fillet geometry (Some 0) (Some 1) 10 corner =
          (Inr None, snd (fillet geometry (Some 0) (Some 1) 10 corner))"
    unfolding corner_radius_10 by simp
  note t10 = fillet_writes_endpoints_only [OF this]
  have "\<forall>arc. (Inr None :: error + IPath option) \<noteq> Inr (Some arc)" by simp
  note failed = t10 [THEN conjunct2, THEN conjunct2, THEN conjunct1, THEN mp, OF this]
  from e w frame same hh old new failed show ?thesis unfolding names by blast
qed

text \<open>
  C10. \<^verbatim>\<open>getPointProperties\<close> returns \<^verbatim>\<open>null\<close> for a path that is neither a line nor
  an arc. When one of the two paths is such a path, the first check of
  \<^verbatim>\<open>getMatchingPointProperties\<close> reads an element of \<^verbatim>\<open>null\<close> and throws, and so
  does every call of \<^verbatim>\<open>fillet\<close> that gets as far as the matcher, which is every call
  with two paths and a positive radius; the store is as it was.
\<close>

theorem fillet_type_error:
  assumes "neitherLineNorArc (heap st path1) \<or> neitherLineNorArc (heap st path2)"
  shows "(neitherLineNorArc (heap st path1) \<longrightarrow> getPointProperties L (heap st path1) = None) \<and>
         (neitherLineNorArc (heap st path2) \<longrightarrow> getPointProperties L (heap st path2) = None) \<and>
         getMatchingPointProperties L st path1 path2 = Inl TypeError \<and>
         (0 < filletRadius \<longrightarrow>
            fillet L (Some path1) (Some path2) filletRadius st = (Inl TypeError, st))"
proof -
  have n: "getPointProperties L pth = None" if "neitherLineNorArc pth" for pth
    using that by (cases pth) (simp_all add: neitherLineNorArc_def getPointProperties_def)
  have m: "getMatchingPointProperties L st path1 path2 = Inl TypeError"
    using assms n [of "heap st path1"] n [of "heap st path2"]
    by (auto simp: getMatchingPointProperties_def check_def orElse_def Let_def split: option.splits)
  show ?thesis using n m by (simp add: fillet_def)
qed

theorem fillet_type_error_witness:
  "getPointProperties geometry (Circle (10, 0) 3) = None \<and>
   getMatchingPointProperties geometry (twoPaths (Line (0, 0) (10, 0)) (Circle (10, 0) 3)) 0 1 =
     Inl TypeError \<and>
   fillet geometry (Some 0) (Some 1) 2 (twoPaths (Line (0, 0) (10, 0)) (Circle (10, 0) 3)) =
     (Inl TypeError, twoPaths (Line (0, 0) (10, 0)) (Circle (10, 0) 3))"
  using fillet_type_error [of "twoPaths (Line (0, 0) (10, 0)) (Circle (10, 0) 3)" 0 1 geometry 2]
  by (simp add: neitherLineNorArc_def twoPaths_def)

(* C6 *)

end
